theory Spec2Isabelle
  imports Complex_Main "HOL-Library.Sublist"
begin

section \<open>JavaScript strings\<close>

text \<open>
  A JavaScript string is a sequence of UTF-16 code units.  The scrapers read texts that
  hold code units beyond one byte (the rupee sign U+20B9 is 8377), so a code unit is a
  natural number and a string is a list of them.  \<open>js\<close> writes an ASCII literal.
\<close>

type_synonym jsstring = "nat list"

definition js :: "string \<Rightarrow> jsstring" where
  "js cs = map of_char cs"

text \<open>
  \<open>String.prototype.toLowerCase\<close>.  The language standard reads the string as code
  points (a leading surrogate followed by a trailing one is one code point, any other code
  unit is a code point by itself), lowers them by the default case conversion of the
  Unicode standard and writes the result back as code units.
\<close>

definition isLeadingSurrogate :: "nat \<Rightarrow> bool" where
  "isLeadingSurrogate c = (55296 \<le> c \<and> c \<le> 56319)"

definition isTrailingSurrogate :: "nat \<Rightarrow> bool" where
  "isTrailingSurrogate c = (56320 \<le> c \<and> c \<le> 57343)"

fun codePoints :: "jsstring \<Rightarrow> nat list" where
  "codePoints [] = []"
| "codePoints [c] = [c]"
| "codePoints (lead # trail # cs) =
     (if isLeadingSurrogate lead \<and> isTrailingSurrogate trail
      then ((lead - 55296) * 1024 + (trail - 56320) + 65536) # codePoints cs
      else lead # codePoints (trail # cs))"

definition codeUnits :: "nat \<Rightarrow> jsstring" where
  "codeUnits cp =
     (if cp < 65536 then [cp]
      else [55296 + (cp - 65536) div 1024, 56320 + (cp - 65536) mod 1024])"

text \<open>
  The simple lower-case mappings of the Unicode character database (version 14.0), in
  rows \<open>(lo, hi, step, target)\<close>: the code points \<open>lo\<close>, \<open>lo + step\<close>,
  ... up to \<open>hi\<close> map to \<open>target\<close>, \<open>target + step\<close>, ...; every code point
  in no row maps to itself.
\<close>

definition lowercaseMapping :: "(nat \<times> nat \<times> nat \<times> nat) list" where
  "lowercaseMapping =
     [(65, 90, 1, 97), (192, 214, 1, 224), (216, 222, 1, 248), (256, 302, 2, 257),
      (304, 304, 1, 105), (306, 310, 2, 307), (313, 327, 2, 314), (330, 374, 2, 331),
      (376, 376, 1, 255), (377, 381, 2, 378), (385, 385, 1, 595), (386, 388, 2, 387),
      (390, 390, 1, 596), (391, 391, 1, 392), (393, 394, 1, 598), (395, 395, 1, 396),
      (398, 398, 1, 477), (399, 399, 1, 601), (400, 400, 1, 603), (401, 401, 1, 402),
      (403, 403, 1, 608), (404, 404, 1, 611), (406, 406, 1, 617), (407, 407, 1, 616),
      (408, 408, 1, 409), (412, 412, 1, 623), (413, 413, 1, 626), (415, 415, 1, 629),
      (416, 420, 2, 417), (422, 422, 1, 640), (423, 423, 1, 424), (425, 425, 1, 643),
      (428, 428, 1, 429), (430, 430, 1, 648), (431, 431, 1, 432), (433, 434, 1, 650),
      (435, 437, 2, 436), (439, 439, 1, 658), (440, 440, 1, 441), (444, 444, 1, 445),
      (452, 452, 1, 454), (453, 453, 1, 454), (455, 455, 1, 457), (456, 456, 1, 457),
      (458, 458, 1, 460), (459, 475, 2, 460), (478, 494, 2, 479), (497, 497, 1, 499),
      (498, 500, 2, 499), (502, 502, 1, 405), (503, 503, 1, 447), (504, 542, 2, 505),
      (544, 544, 1, 414), (546, 562, 2, 547), (570, 570, 1, 11365), (571, 571, 1, 572),
      (573, 573, 1, 410), (574, 574, 1, 11366), (577, 577, 1, 578), (579, 579, 1, 384),
      (580, 580, 1, 649), (581, 581, 1, 652), (582, 590, 2, 583), (880, 882, 2, 881),
      (886, 886, 1, 887), (895, 895, 1, 1011), (902, 902, 1, 940), (904, 906, 1, 941),
      (908, 908, 1, 972), (910, 911, 1, 973), (913, 929, 1, 945), (931, 939, 1, 963),
      (975, 975, 1, 983), (984, 1006, 2, 985), (1012, 1012, 1, 952), (1015, 1015, 1, 1016),
      (1017, 1017, 1, 1010), (1018, 1018, 1, 1019), (1021, 1023, 1, 891), (1024, 1039, 1, 1104),
      (1040, 1071, 1, 1072), (1120, 1152, 2, 1121), (1162, 1214, 2, 1163),
      (1216, 1216, 1, 1231), (1217, 1229, 2, 1218), (1232, 1326, 2, 1233),
      (1329, 1366, 1, 1377), (4256, 4293, 1, 11520), (4295, 4295, 1, 11559),
      (4301, 4301, 1, 11565), (5024, 5103, 1, 43888), (5104, 5109, 1, 5112),
      (7312, 7354, 1, 4304), (7357, 7359, 1, 4349), (7680, 7828, 2, 7681), (7838, 7838, 1, 223),
      (7840, 7934, 2, 7841), (7944, 7951, 1, 7936), (7960, 7965, 1, 7952),
      (7976, 7983, 1, 7968), (7992, 7999, 1, 7984), (8008, 8013, 1, 8000),
      (8025, 8031, 2, 8017), (8040, 8047, 1, 8032), (8072, 8079, 1, 8064),
      (8088, 8095, 1, 8080), (8104, 8111, 1, 8096), (8120, 8121, 1, 8112),
      (8122, 8123, 1, 8048), (8124, 8124, 1, 8115), (8136, 8139, 1, 8050),
      (8140, 8140, 1, 8131), (8152, 8153, 1, 8144), (8154, 8155, 1, 8054),
      (8168, 8169, 1, 8160), (8170, 8171, 1, 8058), (8172, 8172, 1, 8165),
      (8184, 8185, 1, 8056), (8186, 8187, 1, 8060), (8188, 8188, 1, 8179), (8486, 8486, 1, 969),
      (8490, 8490, 1, 107), (8491, 8491, 1, 229), (8498, 8498, 1, 8526), (8544, 8559, 1, 8560),
      (8579, 8579, 1, 8580), (9398, 9423, 1, 9424), (11264, 11311, 1, 11312),
      (11360, 11360, 1, 11361), (11362, 11362, 1, 619), (11363, 11363, 1, 7549),
      (11364, 11364, 1, 637), (11367, 11371, 2, 11368), (11373, 11373, 1, 593),
      (11374, 11374, 1, 625), (11375, 11375, 1, 592), (11376, 11376, 1, 594),
      (11378, 11378, 1, 11379), (11381, 11381, 1, 11382), (11390, 11391, 1, 575),
      (11392, 11490, 2, 11393), (11499, 11501, 2, 11500), (11506, 11506, 1, 11507),
      (42560, 42604, 2, 42561), (42624, 42650, 2, 42625), (42786, 42798, 2, 42787),
      (42802, 42862, 2, 42803), (42873, 42875, 2, 42874), (42877, 42877, 1, 7545),
      (42878, 42886, 2, 42879), (42891, 42891, 1, 42892), (42893, 42893, 1, 613),
      (42896, 42898, 2, 42897), (42902, 42920, 2, 42903), (42922, 42922, 1, 614),
      (42923, 42923, 1, 604), (42924, 42924, 1, 609), (42925, 42925, 1, 620),
      (42926, 42926, 1, 618), (42928, 42928, 1, 670), (42929, 42929, 1, 647),
      (42930, 42930, 1, 669), (42931, 42931, 1, 43859), (42932, 42946, 2, 42933),
      (42948, 42948, 1, 42900), (42949, 42949, 1, 642), (42950, 42950, 1, 7566),
      (42951, 42953, 2, 42952), (42960, 42960, 1, 42961), (42966, 42968, 2, 42967),
      (42997, 42997, 1, 42998), (65313, 65338, 1, 65345), (66560, 66599, 1, 66600),
      (66736, 66771, 1, 66776), (66928, 66938, 1, 66967), (66940, 66954, 1, 66979),
      (66956, 66962, 1, 66995), (66964, 66965, 1, 67003), (68736, 68786, 1, 68800),
      (71840, 71871, 1, 71872), (93760, 93791, 1, 93792), (125184, 125217, 1, 125218)]"

fun lowerIn :: "(nat \<times> nat \<times> nat \<times> nat) list \<Rightarrow> nat \<Rightarrow> nat" where
  "lowerIn [] c = c"
| "lowerIn ((lo, hi, step, target) # rows) c =
     (if lo \<le> c \<and> c \<le> hi \<and> (c - lo) mod step = 0 then target + (c - lo)
      else lowerIn rows c)"

definition simpleLower :: "nat \<Rightarrow> nat" where
  "simpleLower c = lowerIn lowercaseMapping c"

text \<open>
  The two character properties the conversion of the capital sigma looks at, as ranges
  \<open>(lo, hi)\<close>: the case-ignorable code points, and the cased code points that are
  not case-ignorable (the conversion skips the case-ignorable ones preceding it asks whether
  a code point is cased).
\<close>

definition casedRanges :: "(nat \<times> nat) list" where
  "casedRanges =
     [(65, 90), (97, 122), (170, 170), (181, 181), (186, 186), (192, 214), (216, 246),
      (248, 442), (444, 447), (452, 659), (661, 687), (880, 883), (886, 887), (891, 893),
      (895, 895), (902, 902), (904, 906), (908, 908), (910, 929), (931, 1013), (1015, 1153),
      (1162, 1327), (1329, 1366), (1376, 1416), (4256, 4293), (4295, 4295), (4301, 4301),
      (4304, 4346), (4349, 4351), (5024, 5109), (5112, 5117), (7296, 7304), (7312, 7354),
      (7357, 7359), (7424, 7467), (7531, 7543), (7545, 7578), (7680, 7957), (7960, 7965),
      (7968, 8005), (8008, 8013), (8016, 8023), (8025, 8025), (8027, 8027), (8029, 8029),
      (8031, 8061), (8064, 8116), (8118, 8124), (8126, 8126), (8130, 8132), (8134, 8140),
      (8144, 8147), (8150, 8155), (8160, 8172), (8178, 8180), (8182, 8188), (8450, 8450),
      (8455, 8455), (8458, 8467), (8469, 8469), (8473, 8477), (8484, 8484), (8486, 8486),
      (8488, 8488), (8490, 8493), (8495, 8500), (8505, 8505), (8508, 8511), (8517, 8521),
      (8526, 8526), (8544, 8575), (8579, 8580), (9398, 9449), (11264, 11387), (11390, 11492),
      (11499, 11502), (11506, 11507), (11520, 11557), (11559, 11559), (11565, 11565),
      (42560, 42605), (42624, 42651), (42786, 42863), (42865, 42887), (42891, 42894),
      (42896, 42954), (42960, 42961), (42963, 42963), (42965, 42969), (42997, 42998),
      (43002, 43002), (43824, 43866), (43872, 43880), (43888, 43967), (64256, 64262),
      (64275, 64279), (65313, 65338), (65345, 65370), (66560, 66639), (66736, 66771),
      (66776, 66811), (66928, 66938), (66940, 66954), (66956, 66962), (66964, 66965),
      (66967, 66977), (66979, 66993), (66995, 67001), (67003, 67004), (68736, 68786),
      (68800, 68850), (71840, 71903), (93760, 93823), (119808, 119892), (119894, 119964),
      (119966, 119967), (119970, 119970), (119973, 119974), (119977, 119980), (119982, 119993),
      (119995, 119995), (119997, 120003), (120005, 120069), (120071, 120074), (120077, 120084),
      (120086, 120092), (120094, 120121), (120123, 120126), (120128, 120132), (120134, 120134),
      (120138, 120144), (120146, 120485), (120488, 120512), (120514, 120538), (120540, 120570),
      (120572, 120596), (120598, 120628), (120630, 120654), (120656, 120686), (120688, 120712),
      (120714, 120744), (120746, 120770), (120772, 120779), (122624, 122633), (122635, 122654),
      (125184, 125251), (127280, 127305), (127312, 127337), (127344, 127369)]"

definition caseIgnorableRanges :: "(nat \<times> nat) list" where
  "caseIgnorableRanges =
     [(39, 39), (46, 46), (58, 58), (94, 94), (96, 96), (168, 168), (173, 173), (175, 175),
      (180, 180), (183, 184), (688, 879), (884, 885), (890, 890), (900, 901), (903, 903),
      (1155, 1161), (1369, 1369), (1375, 1375), (1425, 1469), (1471, 1471), (1473, 1474),
      (1476, 1477), (1479, 1479), (1524, 1524), (1536, 1541), (1552, 1562), (1564, 1564),
      (1600, 1600), (1611, 1631), (1648, 1648), (1750, 1757), (1759, 1768), (1770, 1773),
      (1807, 1807), (1809, 1809), (1840, 1866), (1958, 1968), (2027, 2037), (2042, 2042),
      (2045, 2045), (2070, 2093), (2137, 2139), (2184, 2184), (2192, 2193), (2200, 2207),
      (2249, 2306), (2362, 2362), (2364, 2364), (2369, 2376), (2381, 2381), (2385, 2391),
      (2402, 2403), (2417, 2417), (2433, 2433), (2492, 2492), (2497, 2500), (2509, 2509),
      (2530, 2531), (2558, 2558), (2561, 2562), (2620, 2620), (2625, 2626), (2631, 2632),
      (2635, 2637), (2641, 2641), (2672, 2673), (2677, 2677), (2689, 2690), (2748, 2748),
      (2753, 2757), (2759, 2760), (2765, 2765), (2786, 2787), (2810, 2815), (2817, 2817),
      (2876, 2876), (2879, 2879), (2881, 2884), (2893, 2893), (2901, 2902), (2914, 2915),
      (2946, 2946), (3008, 3008), (3021, 3021), (3072, 3072), (3076, 3076), (3132, 3132),
      (3134, 3136), (3142, 3144), (3146, 3149), (3157, 3158), (3170, 3171), (3201, 3201),
      (3260, 3260), (3263, 3263), (3270, 3270), (3276, 3277), (3298, 3299), (3328, 3329),
      (3387, 3388), (3393, 3396), (3405, 3405), (3426, 3427), (3457, 3457), (3530, 3530),
      (3538, 3540), (3542, 3542), (3633, 3633), (3636, 3642), (3654, 3662), (3761, 3761),
      (3764, 3772), (3782, 3782), (3784, 3789), (3864, 3865), (3893, 3893), (3895, 3895),
      (3897, 3897), (3953, 3966), (3968, 3972), (3974, 3975), (3981, 3991), (3993, 4028),
      (4038, 4038), (4141, 4144), (4146, 4151), (4153, 4154), (4157, 4158), (4184, 4185),
      (4190, 4192), (4209, 4212), (4226, 4226), (4229, 4230), (4237, 4237), (4253, 4253),
      (4348, 4348), (4957, 4959), (5906, 5908), (5938, 5939), (5970, 5971), (6002, 6003),
      (6068, 6069), (6071, 6077), (6086, 6086), (6089, 6099), (6103, 6103), (6109, 6109),
      (6155, 6159), (6211, 6211), (6277, 6278), (6313, 6313), (6432, 6434), (6439, 6440),
      (6450, 6450), (6457, 6459), (6679, 6680), (6683, 6683), (6742, 6742), (6744, 6750),
      (6752, 6752), (6754, 6754), (6757, 6764), (6771, 6780), (6783, 6783), (6823, 6823),
      (6832, 6862), (6912, 6915), (6964, 6964), (6966, 6970), (6972, 6972), (6978, 6978),
      (7019, 7027), (7040, 7041), (7074, 7077), (7080, 7081), (7083, 7085), (7142, 7142),
      (7144, 7145), (7149, 7149), (7151, 7153), (7212, 7219), (7222, 7223), (7288, 7293),
      (7376, 7378), (7380, 7392), (7394, 7400), (7405, 7405), (7412, 7412), (7416, 7417),
      (7468, 7530), (7544, 7544), (7579, 7679), (8125, 8125), (8127, 8129), (8141, 8143),
      (8157, 8159), (8173, 8175), (8189, 8190), (8203, 8207), (8216, 8217), (8228, 8228),
      (8231, 8231), (8234, 8238), (8288, 8292), (8294, 8303), (8305, 8305), (8319, 8319),
      (8336, 8348), (8400, 8432), (11388, 11389), (11503, 11505), (11631, 11631),
      (11647, 11647), (11744, 11775), (11823, 11823), (12293, 12293), (12330, 12333),
      (12337, 12341), (12347, 12347), (12441, 12446), (12540, 12542), (40981, 40981),
      (42232, 42237), (42508, 42508), (42607, 42610), (42612, 42621), (42623, 42623),
      (42652, 42655), (42736, 42737), (42752, 42785), (42864, 42864), (42888, 42890),
      (42994, 42996), (43000, 43001), (43010, 43010), (43014, 43014), (43019, 43019),
      (43045, 43046), (43052, 43052), (43204, 43205), (43232, 43249), (43263, 43263),
      (43302, 43309), (43335, 43345), (43392, 43394), (43443, 43443), (43446, 43449),
      (43452, 43453), (43471, 43471), (43493, 43494), (43561, 43566), (43569, 43570),
      (43573, 43574), (43587, 43587), (43596, 43596), (43632, 43632), (43644, 43644),
      (43696, 43696), (43698, 43700), (43703, 43704), (43710, 43711), (43713, 43713),
      (43741, 43741), (43756, 43757), (43763, 43764), (43766, 43766), (43867, 43871),
      (43881, 43883), (44005, 44005), (44008, 44008), (44013, 44013), (64286, 64286),
      (64434, 64450), (65024, 65039), (65043, 65043), (65056, 65071), (65106, 65106),
      (65109, 65109), (65279, 65279), (65287, 65287), (65294, 65294), (65306, 65306),
      (65342, 65342), (65344, 65344), (65392, 65392), (65438, 65439), (65507, 65507),
      (65529, 65531), (66045, 66045), (66272, 66272), (66422, 66426), (67456, 67461),
      (67463, 67504), (67506, 67514), (68097, 68099), (68101, 68102), (68108, 68111),
      (68152, 68154), (68159, 68159), (68325, 68326), (68900, 68903), (69291, 69292),
      (69446, 69456), (69506, 69509), (69633, 69633), (69688, 69702), (69744, 69744),
      (69747, 69748), (69759, 69761), (69811, 69814), (69817, 69818), (69821, 69821),
      (69826, 69826), (69837, 69837), (69888, 69890), (69927, 69931), (69933, 69940),
      (70003, 70003), (70016, 70017), (70070, 70078), (70089, 70092), (70095, 70095),
      (70191, 70193), (70196, 70196), (70198, 70199), (70206, 70206), (70367, 70367),
      (70371, 70378), (70400, 70401), (70459, 70460), (70464, 70464), (70502, 70508),
      (70512, 70516), (70712, 70719), (70722, 70724), (70726, 70726), (70750, 70750),
      (70835, 70840), (70842, 70842), (70847, 70848), (70850, 70851), (71090, 71093),
      (71100, 71101), (71103, 71104), (71132, 71133), (71219, 71226), (71229, 71229),
      (71231, 71232), (71339, 71339), (71341, 71341), (71344, 71349), (71351, 71351),
      (71453, 71455), (71458, 71461), (71463, 71467), (71727, 71735), (71737, 71738),
      (71995, 71996), (71998, 71998), (72003, 72003), (72148, 72151), (72154, 72155),
      (72160, 72160), (72193, 72202), (72243, 72248), (72251, 72254), (72263, 72263),
      (72273, 72278), (72281, 72283), (72330, 72342), (72344, 72345), (72752, 72758),
      (72760, 72765), (72767, 72767), (72850, 72871), (72874, 72880), (72882, 72883),
      (72885, 72886), (73009, 73014), (73018, 73018), (73020, 73021), (73023, 73029),
      (73031, 73031), (73104, 73105), (73109, 73109), (73111, 73111), (73459, 73460),
      (78896, 78904), (92912, 92916), (92976, 92982), (92992, 92995), (94031, 94031),
      (94095, 94111), (94176, 94177), (94179, 94180), (110576, 110579), (110581, 110587),
      (110589, 110590), (113821, 113822), (113824, 113827), (118528, 118573), (118576, 118598),
      (119143, 119145), (119155, 119170), (119173, 119179), (119210, 119213), (119362, 119364),
      (121344, 121398), (121403, 121452), (121461, 121461), (121476, 121476), (121499, 121503),
      (121505, 121519), (122880, 122886), (122888, 122904), (122907, 122913), (122915, 122916),
      (122918, 122922), (123184, 123197), (123566, 123566), (123628, 123631), (125136, 125142),
      (125252, 125259), (127995, 127999), (917505, 917505), (917536, 917631), (917760, 917999)]"

definition inRanges :: "(nat \<times> nat) list \<Rightarrow> nat \<Rightarrow> bool" where
  "inRanges ranges c = list_ex (\<lambda>(lo, hi). lo \<le> c \<and> c \<le> hi) ranges"

fun skipIgnorable :: "nat list \<Rightarrow> nat option" where
  "skipIgnorable [] = None"
| "skipIgnorable (c # cs) =
     (if inRanges caseIgnorableRanges c then skipIgnorable cs else Some c)"

text \<open>
  The capital sigma U+03A3 becomes the final small sigma U+03C2 when a cased letter comes
  before it and none after it, case-ignorable code points skipped on both sides;
  \<open>preceding\<close> holds the code points before it, the nearest first.  Otherwise it
  becomes U+03C3, its simple mapping.  U+0130 becomes \<open>i\<close> followed by U+0307.
\<close>

definition finalSigma :: "nat list \<Rightarrow> nat list \<Rightarrow> bool" where
  "finalSigma preceding following =
     ((case skipIgnorable preceding of
         None \<Rightarrow> False
       | Some c \<Rightarrow> inRanges casedRanges c)
      \<and> (case skipIgnorable following of
           None \<Rightarrow> True
         | Some c \<Rightarrow> \<not> inRanges casedRanges c))"

definition lowerPoint :: "nat list \<Rightarrow> nat \<Rightarrow> nat list \<Rightarrow> nat list" where
  "lowerPoint preceding c following =
     (if c = 304 then [105, 775]
      else if c = 931 \<and> finalSigma preceding following then [962]
      else [simpleLower c])"

fun lowerFrom :: "nat list \<Rightarrow> nat list \<Rightarrow> nat list" where
  "lowerFrom preceding [] = []"
| "lowerFrom preceding (c # following) =
     lowerPoint preceding c following @ lowerFrom (c # preceding) following"

definition toLowerCase :: "jsstring \<Rightarrow> jsstring" where
  "toLowerCase s = concat (map codeUnits (lowerFrom [] (codePoints s)))"

text \<open>\<open>hay.startsWith(needle)\<close> and \<open>hay.includes(needle)\<close>.\<close>

fun startsWith :: "'a list \<Rightarrow> 'a list \<Rightarrow> bool" where
  "startsWith hay [] = True"
| "startsWith [] (n # ns) = False"
| "startsWith (h # hs) (n # ns) = (h = n \<and> startsWith hs ns)"

fun includesStr :: "'a list \<Rightarrow> 'a list \<Rightarrow> bool" where
  "includesStr [] needle = (needle = [])"
| "includesStr (h # hs) needle = (startsWith (h # hs) needle \<or> includesStr hs needle)"

definition backslash :: jsstring where
  "backslash = [92]"

definition rupee :: jsstring where
  "rupee = [8377]"

text \<open>
  White space and line terminators, as \<open>String.prototype.trim\<close> strips them.
\<close>

definition whiteSpace :: "nat \<Rightarrow> bool" where
  "whiteSpace c =
     (c \<in> set [9, 10, 11, 12, 13, 32, 160, 5760, 8232, 8233, 8239, 8287, 12288, 65279]
      \<or> (8192 \<le> c \<and> c \<le> 8202))"

definition trim :: "jsstring \<Rightarrow> jsstring" where
  "trim s = rev (dropWhile whiteSpace (rev (dropWhile whiteSpace s)))"

text \<open>
  \<open>text.split(sep)\<close> for a separator of two code units \<open>a\<close>, \<open>b\<close>; \<open>piece\<close>
  is the part read since the last separator.
\<close>

fun split2 :: "nat \<Rightarrow> nat \<Rightarrow> jsstring \<Rightarrow> jsstring \<Rightarrow> jsstring list" where
  "split2 a b piece (x # y # more) =
     (if x = a \<and> y = b then piece # split2 a b [] more
      else split2 a b (piece @ [x]) (y # more))"
| "split2 a b piece [x] = [piece @ [x]]"
| "split2 a b piece [] = [piece]"

text \<open>\<open>pieces.join(sep)\<close>.\<close>

fun joinWith :: "jsstring \<Rightarrow> jsstring list \<Rightarrow> jsstring" where
  "joinWith sep [] = []"
| "joinWith sep [p] = p"
| "joinWith sep (p # q # ps) = p @ sep @ joinWith sep (q # ps)"

section \<open>Regular expressions\<close>

text \<open>
  The patterns of the scrapers use literal characters, the dot, character classes, the
  anchors, sequence, alternation, greedy repetition and capturing groups.  A regular
  expression literal is written here as its syntax tree.
\<close>

datatype regex =
    Empty
  | Chr nat
  | Dot
  | Cls bool "(nat \<times> nat) list"
  | Bol
  | Eol
  | Seq regex regex
  | Alt regex regex
  | Rep nat "nat option" regex
  | Grp nat regex

text \<open>
  The state of a match, as in the language standard: where the match has got to
  (\<open>endIndex\<close>, with the input still ahead in \<open>rest\<close>) and what the groups captured.
\<close>

record mstate =
  endIndex :: nat
  rest :: jsstring
  captures :: "(nat \<times> jsstring) list"

text \<open>
  Comparison of characters under the flag \<open>i\<close>.  The patterns name ASCII characters
  and symbols without case; for them the standard's canonical form differs from the
  character only on the ASCII small letters.
\<close>

definition canonicalize :: "bool \<Rightarrow> nat \<Rightarrow> nat" where
  "canonicalize ignoreCase c = (if ignoreCase \<and> 97 \<le> c \<and> c \<le> 122 then c - 32 else c)"

definition lineTerminator :: "nat \<Rightarrow> bool" where
  "lineTerminator c = (c = 10 \<or> c = 13 \<or> c = 8232 \<or> c = 8233)"

text \<open>
  A character is in a class when one of the class's ranges holds a character with the
  same canonical form: the character itself or, under the flag \<open>i\<close>, the other
  case of an ASCII letter.
\<close>

definition caseVariants :: "bool \<Rightarrow> nat \<Rightarrow> nat list" where
  "caseVariants ignoreCase c =
     (if ignoreCase \<and> 97 \<le> c \<and> c \<le> 122 then [c, c - 32]
      else if ignoreCase \<and> 65 \<le> c \<and> c \<le> 90 then [c, c + 32]
      else [c])"

definition inClass :: "bool \<Rightarrow> (nat \<times> nat) list \<Rightarrow> nat \<Rightarrow> bool" where
  "inClass ignoreCase ranges c =
     list_ex (\<lambda>(lo, hi). list_ex (\<lambda>m. lo \<le> m \<and> m \<le> hi) (caseVariants ignoreCase c)) ranges"

definition oneChar :: "(nat \<Rightarrow> bool) \<Rightarrow> mstate \<Rightarrow> mstate list" where
  "oneChar ok s =
     (case rest s of
        [] \<Rightarrow> []
      | c # cs \<Rightarrow> if ok c then [s\<lparr>endIndex := Suc (endIndex s), rest := cs\<rparr>] else [])"

text \<open>
  A matcher maps a state to the states the pattern can end in, the backtracking order
  first.  \<open>exactly k m\<close> runs \<open>m\<close> \<open>k\<close> times (the required repetitions); \<open>upTo\<close>
  runs the optional ones, greedy, each of which must consume input as the standard asks.
  So no more than \<open>length (rest s)\<close> of them can follow one another, which is the
  first argument \<open>upTo\<close> is called with.  (The standard clears the captures of a
  group at each repetition around it; no pattern here repeats a group.)
\<close>

primrec exactly :: "nat \<Rightarrow> (mstate \<Rightarrow> mstate list) \<Rightarrow> mstate \<Rightarrow> mstate list" where
  "exactly 0 m s = [s]"
| "exactly (Suc k) m s = concat (map (exactly k m) (m s))"

primrec upTo :: "nat \<Rightarrow> nat option \<Rightarrow> (mstate \<Rightarrow> mstate list) \<Rightarrow> mstate \<Rightarrow> mstate list" where
  "upTo 0 n m s = [s]"
| "upTo (Suc bound) n m s =
     (if n = Some 0 then [s]
      else concat (map (upTo bound (map_option (\<lambda>k. k - 1) n) m)
                       (filter (\<lambda>y. endIndex y \<noteq> endIndex s) (m s))) @ [s])"

primrec matcher :: "bool \<Rightarrow> regex \<Rightarrow> mstate \<Rightarrow> mstate list" where
  "matcher ic Empty s = [s]"
| "matcher ic (Chr c) s = oneChar (\<lambda>x. canonicalize ic x = canonicalize ic c) s"
| "matcher ic Dot s = oneChar (\<lambda>x. \<not> lineTerminator x) s"
| "matcher ic (Cls negated ranges) s = oneChar (\<lambda>x. inClass ic ranges x \<noteq> negated) s"
| "matcher ic Bol s = (if endIndex s = 0 then [s] else [])"
| "matcher ic Eol s = (if rest s = [] then [s] else [])"
| "matcher ic (Seq a b) s = concat (map (matcher ic b) (matcher ic a s))"
| "matcher ic (Alt a b) s = matcher ic a s @ matcher ic b s"
| "matcher ic (Rep lo hi r) s =
     concat (map (\<lambda>y. upTo (length (rest y)) (map_option (\<lambda>k. k - lo) hi) (matcher ic r) y)
                 (exactly lo (matcher ic r) s))"
| "matcher ic (Grp i r) s =
     map (\<lambda>y. y\<lparr>captures := (i, take (endIndex y - endIndex s) (rest s)) # captures y\<rparr>)
         (matcher ic r s)"

text \<open>
  \<open>RegExp.prototype.exec\<close> without the flag \<open>g\<close>: the first start index, from the
  left, at which the pattern matches, with the matched text and the captures.
\<close>

record matched =
  whole :: jsstring
  groups :: "(nat \<times> jsstring) list"

fun execFrom :: "bool \<Rightarrow> regex \<Rightarrow> nat \<Rightarrow> jsstring \<Rightarrow> matched option" where
  "execFrom ic r i [] =
     (case matcher ic r \<lparr>endIndex = i, rest = [], captures = []\<rparr> of
        y # _ \<Rightarrow> Some \<lparr>whole = [], groups = captures y\<rparr>
      | [] \<Rightarrow> None)"
| "execFrom ic r i (c # cs) =
     (case matcher ic r \<lparr>endIndex = i, rest = c # cs, captures = []\<rparr> of
        y # _ \<Rightarrow> Some \<lparr>whole = take (endIndex y - i) (c # cs), groups = captures y\<rparr>
      | [] \<Rightarrow> execFrom ic r (Suc i) cs)"

definition exec :: "bool \<Rightarrow> regex \<Rightarrow> jsstring \<Rightarrow> matched option" where
  "exec ic r text = execFrom ic r 0 text"

definition test :: "bool \<Rightarrow> regex \<Rightarrow> jsstring \<Rightarrow> bool" where
  "test ic r text = (exec ic r text \<noteq> None)"

text \<open>\<open>match[i]\<close>: the text of group \<open>i\<close>, or \<open>undefined\<close>.\<close>

definition grp :: "matched \<Rightarrow> nat \<Rightarrow> jsstring option" where
  "grp m i = map_of (groups m) i"

text \<open>
  \<open>text.replace(r, sub)\<close> with the flag \<open>g\<close>: every match, from the left, is replaced.
  After an empty match the search moves on by one code unit.  Each step passes at least
  one code unit, so \<open>Suc (length text)\<close> steps are enough.
\<close>

primrec replaceFrom ::
  "nat \<Rightarrow> bool \<Rightarrow> regex \<Rightarrow> jsstring \<Rightarrow> nat \<Rightarrow> jsstring \<Rightarrow> jsstring" where
  "replaceFrom 0 ic r sub i cs = cs"
| "replaceFrom (Suc steps) ic r sub i cs =
     (case matcher ic r \<lparr>endIndex = i, rest = cs, captures = []\<rparr> of
        y # _ \<Rightarrow>
          if endIndex y = i
          then sub @ (case cs of [] \<Rightarrow> [] | c # cs' \<Rightarrow> c # replaceFrom steps ic r sub (Suc i) cs')
          else sub @ replaceFrom steps ic r sub (endIndex y) (rest y)
      | [] \<Rightarrow> (case cs of [] \<Rightarrow> [] | c # cs' \<Rightarrow> c # replaceFrom steps ic r sub (Suc i) cs'))"

definition replaceAll :: "bool \<Rightarrow> regex \<Rightarrow> jsstring \<Rightarrow> jsstring \<Rightarrow> jsstring" where
  "replaceAll ic r sub text = replaceFrom (Suc (length text)) ic r sub 0 text"

text \<open>Writing patterns: a sequence, an alternation, a literal text, a list of keywords.\<close>

fun seqs :: "regex list \<Rightarrow> regex" where
  "seqs [] = Empty"
| "seqs [r] = r"
| "seqs (r # rs) = Seq r (seqs rs)"

fun alts :: "regex list \<Rightarrow> regex" where
  "alts [] = Cls False []"
| "alts [r] = r"
| "alts (r # rs) = Alt r (alts rs)"

definition lit :: "jsstring \<Rightarrow> regex" where
  "lit s = seqs (map Chr s)"

definition kw :: "string list \<Rightarrow> regex" where
  "kw ws = alts (map (\<lambda>w. lit (js w)) ws)"

section \<open>Numbers and records\<close>

text \<open>
  A JavaScript number as the scrapers produce it: the result of \<open>parseFloat\<close> on a
  decimal text is that decimal (a rational; rounding to a double is left out), or NaN.
  A price is \<open>null\<close> (\<open>None\<close>) or a number.
\<close>

datatype jsnumber = NaN | Num rat

text \<open>Strict equality \<open>===\<close> on prices: NaN is not equal to itself.\<close>

fun strictEqPrice :: "jsnumber option \<Rightarrow> jsnumber option \<Rightarrow> bool" where
  "strictEqPrice None None = True"
| "strictEqPrice (Some (Num a)) (Some (Num b)) = (a = b)"
| "strictEqPrice _ _ = False"

record named =
  name :: jsstring

text \<open>The fields every menu-item object of the scrapers has.\<close>

record menuItem = named +
  description :: jsstring
  price :: "jsnumber option"
  category :: jsstring
  cuisine_type :: "jsstring option"
  dietary_info :: "jsstring list"
  spice_level :: "jsstring option"
  is_available :: bool
  is_popular :: bool
  preparation_time :: "jsstring option"

text \<open>
  \<open>parseFloat\<close> and \<open>parseInt\<close> on a text or \<open>undefined\<close>: leading white space, a
  sign, then decimal digits (for \<open>parseFloat\<close> with a fraction); NaN when no digit is
  there.  Exponents, \<open>Infinity\<close> and hexadecimal prefixes are left out: no group of the
  patterns below can capture them.
\<close>

definition digit :: "nat \<Rightarrow> bool" where
  "digit c = (48 \<le> c \<and> c \<le> 57)"

definition digitsValue :: "jsstring \<Rightarrow> nat" where
  "digitsValue ds = foldl (\<lambda>v c. 10 * v + (c - 48)) 0 ds"

definition signed :: "jsstring \<Rightarrow> bool \<times> jsstring" where
  "signed s =
     (case dropWhile whiteSpace s of
        [] \<Rightarrow> (False, [])
      | c # cs \<Rightarrow> if c = 45 then (True, cs) else if c = 43 then (False, cs) else (False, c # cs))"

definition parseFloat :: "jsstring option \<Rightarrow> jsnumber" where
  "parseFloat arg =
     (case arg of
        None \<Rightarrow> NaN
      | Some s \<Rightarrow>
          (let (negative, u) = signed s;
               whole = takeWhile digit u;
               after = dropWhile digit u;
               fraction = (case after of [] \<Rightarrow> []
                           | c # cs \<Rightarrow> if c = 46 then takeWhile digit cs else [])
           in if whole = [] \<and> fraction = [] then NaN
              else Num ((if negative then - 1 else 1)
                        * (of_nat (digitsValue (whole @ fraction)) / 10 ^ length fraction))))"

definition parseInt :: "jsstring option \<Rightarrow> jsnumber" where
  "parseInt arg =
     (case arg of
        None \<Rightarrow> NaN
      | Some s \<Rightarrow>
          (let (negative, u) = signed s;
               whole = takeWhile digit u
           in if whole = [] then NaN
              else Num ((if negative then - 1 else 1) * of_nat (digitsValue whole))))"

section \<open>The menu scraper: one element of the page\<close>

text \<open>
  \<open>extractCompleteRealMenu\<close> runs the function below on every element of the page.  Its
  patterns follow, in the order of the source and under the source's names where it
  names them.  In the source's pattern literals a doubled backslash stands before the
  letters \<open>s\<close>, \<open>d\<close> and \<open>b\<close>, before the dot and before the dollar sign.  In a
  pattern literal that is an escaped backslash: the pattern asks for the code unit 92
  itself, followed by what comes after it (the plain letter, any character, the end of
  the input).
\<close>

definition amountGroup :: regex where
  \<comment> \<open>\<^verbatim>\<open>(\\d+(?:\\.\\d{1,2})?)\<close>\<close>
  "amountGroup =
     Grp 1 (seqs [lit (backslash), Rep 1 None (lit (js ''d'')),
                  Rep 0 (Some 1) (seqs [lit (backslash), Dot, lit (backslash),
                                        Rep 1 (Some 2) (lit (js ''d''))])])"

definition foodKeywords :: regex where
  "foodKeywords =
     kw [''biryani'', ''curry'', ''dal'', ''rice'', ''naan'', ''roti'', ''chapati'',
     ''paratha'', ''kulcha'', ''pizza'', ''burger'', ''pasta'', ''noodles'', ''sandwich'',
     ''soup'', ''salad'', ''dessert'', ''cake'', ''ice cream'', ''juice'', ''lassi'',
     ''tea'', ''coffee'', ''chicken'', ''mutton'', ''paneer'', ''fish'', ''prawn'',
     ''crab'', ''lobster'', ''beef'', ''lamb'', ''pork'', ''egg'', ''vegetable'',
     ''potato'', ''cauliflower'', ''spinach'', ''okra'', ''peas'', ''beans'', ''corn'',
     ''carrot'', ''onion'', ''tomato'', ''garlic'', ''ginger'', ''chili'', ''pepper'',
     ''spice'', ''masala'', ''tandoor'', ''grilled'', ''fried'', ''roasted'', ''steamed'',
     ''boiled'', ''baked'', ''stuffed'', ''marinated'', ''glazed'', ''crispy'', ''creamy'',
     ''spicy'', ''mild'', ''sweet'', ''sour'', ''bitter'', ''salty'', ''tangy'', ''smoky'',
     ''fragrant'', ''aromatic'', ''fresh'', ''hot'', ''cold'', ''warm'', ''chilled'',
     ''frozen'']"

definition priceKeywords :: regex where
  "priceKeywords =
     alts [lit (rupee), lit (js ''rs''), lit (js ''rupees''), lit (js ''dollar''),
     seqs [lit (backslash), Eol], lit (js ''aed''), lit (js ''dirham''), lit (js ''sar''),
     lit (js ''riyal''), lit (js ''price''), lit (js ''cost''), lit (js ''charge''),
     lit (js ''rate''), lit (js ''bill''), lit (js ''amount''), lit (js ''total''),
     lit (js ''per plate''), lit (js ''per serving''), lit (js ''per piece''),
     lit (js ''per bowl''), lit (js ''per glass''), lit (js ''per cup''),
     lit (js ''starting from''), lit (js ''starting at''), lit (js ''from''),
     lit (js ''only''), lit (js ''just''), lit (js ''mere''), lit (js ''budget''),
     lit (js ''affordable''), lit (js ''premium''), lit (js ''expensive''),
     lit (js ''cheap''), lit (js ''value''), lit (js ''deal''), lit (js ''offer''),
     lit (js ''discount''), lit (js ''save''), lit (js ''free''), lit (js ''complimentary'')]"

definition excludeKeywords :: regex where
  "excludeKeywords =
     kw [''login'', ''signup'', ''register'', ''sign in'', ''sign up'', ''download'',
     ''install'', ''app store'', ''play store'', ''home'', ''about us'', ''contact us'',
     ''privacy policy'', ''terms'', ''conditions'', ''help'', ''support'', ''faq'',
     ''career'', ''job'', ''blog'', ''news'', ''press'', ''media'', ''investor'',
     ''partner'', ''advertise'', ''business'', ''merchant'', ''delivery partner'',
     ''restaurant partner'', ''cart'', ''checkout'', ''payment'', ''order history'',
     ''account'', ''profile'', ''settings'', ''logout'', ''search'', ''filter'', ''sort'',
     ''category'', ''collection'', ''cuisine'', ''location'', ''area'', ''city'',
     ''explore'', ''discover'', ''trending'', ''popular'', ''recommended'', ''featured'',
     ''top rated'', ''best'', ''new'', ''offer'', ''deal'', ''discount'', ''coupon'',
     ''promo'', ''code'', ''free delivery'', ''cashback'', ''wallet'', ''points'',
     ''reward'', ''refer'', ''invite'', ''share'', ''like'', ''follow'', ''subscribe'',
     ''notification'', ''alert'', ''banner'', ''advertisement'', ''ad'', ''sponsored'',
     ''popup'', ''modal'', ''overlay'', ''loading'', ''spinner'', ''error'', ''404'',
     ''500'', ''maintenance'', ''coming soon'', ''under construction'', ''footer'',
     ''header'', ''navigation'', ''navbar'', ''sidebar'', ''breadcrumb'', ''pagination'',
     ''page'', ''next'', ''previous'', ''back'', ''continue'', ''proceed'', ''submit'',
     ''cancel'', ''close'', ''ok'', ''yes'', ''no'', ''accept'', ''decline'', ''agree'',
     ''disagree'', ''select'', ''choose'', ''pick'', ''option'', ''dropdown'', ''checkbox'',
     ''radio'', ''button'', ''link'', ''tab'', ''menu'', ''submenu'', ''toggle'',
     ''collapse'', ''expand'', ''show'', ''hide'', ''view'', ''display'', ''render'',
     ''load'', ''refresh'', ''reload'', ''update'', ''edit'', ''delete'', ''remove'',
     ''add'', ''create'', ''save'', ''copy'', ''paste'', ''cut'', ''print'', ''export'',
     ''import'', ''upload'', ''download'', ''attachment'', ''file'', ''image'', ''photo'',
     ''video'', ''audio'', ''document'', ''pdf'', ''excel'', ''word'', ''powerpoint'',
     ''zip'', ''rar'', ''archive'']"

definition nameJunk :: regex where
  "nameJunk =
     Cls True [(97, 122), (65, 90), (48, 57), (92, 92), (115, 115), (39, 39), (38, 38), (46,
     46), (44, 44), (45, 45)]"

definition nameSpaces :: regex where
  "nameSpaces =
     seqs [lit (backslash), Rep 1 None (lit (js ''s''))]"

definition pricePatterns :: "regex list" where
  "pricePatterns =
     [seqs [lit (rupee @ backslash), Rep 0 None (lit (js ''s'')), amountGroup],
      seqs [lit (js ''rs'' @ backslash), Rep 0 (Some 1) Dot, lit (backslash),
       Rep 0 None (lit (js ''s'')), amountGroup],
      seqs [lit (backslash), Eol, lit (backslash), Rep 0 None (lit (js ''s'')), amountGroup],
      seqs [lit (js ''aed'' @ backslash), Rep 0 None (lit (js ''s'')), amountGroup],
      seqs [lit (js ''sar'' @ backslash), Rep 0 None (lit (js ''s'')), amountGroup],
      seqs [amountGroup, lit (backslash), Rep 0 None (lit (js ''s'')), lit (rupee)],
      seqs [amountGroup, lit (backslash), Rep 0 None (lit (js ''s'')), lit (js ''rs'')],
      seqs [amountGroup, lit (backslash), Rep 0 None (lit (js ''s'')), lit (js ''only'')]]"

definition starterWords :: regex where
  "starterWords =
     kw [''starter'', ''appetizer'', ''soup'', ''salad'', ''tikka'', ''kebab'', ''samosa'',
     ''pakora'', ''chaat'', ''cutlet'', ''finger food'', ''mezze'', ''tapas'', ''dim sum'',
     ''spring roll'', ''dumpling'']"

definition dessertWords :: regex where
  "dessertWords =
     kw [''dessert'', ''sweet'', ''ice cream'', ''cake'', ''kulfi'', ''gulab jamun'',
     ''rasmalai'', ''kheer'', ''halwa'', ''payasam'', ''rabri'', ''falooda'', ''brownie'',
     ''pastry'', ''mousse'', ''tart'', ''pie'', ''cheesecake'', ''pudding'', ''custard'',
     ''jelly'', ''sorbet'', ''gelato'']"

definition riceWords :: regex where
  "riceWords =
     kw [''rice'', ''biryani'', ''pulao'', ''fried rice'', ''jeera rice'', ''coconut rice'',
     ''lemon rice'', ''steamed rice'', ''brown rice'', ''basmati'']"

definition breadWords :: regex where
  "breadWords =
     kw [''bread'', ''naan'', ''roti'', ''paratha'', ''kulcha'', ''chapati'', ''puri'',
     ''bhatura'', ''kulcha'', ''pita'', ''tortilla'', ''baguette'', ''ciabatta'',
     ''focaccia'']"

definition curryWords :: regex where
  "curryWords =
     kw [''dal'', ''curry'', ''gravy'', ''sabji'', ''subzi'', ''korma'', ''masala'',
     ''kadai'', ''palak'', ''matter'', ''aloo'', ''gobi'', ''bhindi'', ''baingan'']"

definition beverageWords :: regex where
  "beverageWords =
     kw [''drink'', ''beverage'', ''juice'', ''lassi'', ''tea'', ''coffee'', ''shake'',
     ''smoothie'', ''water'', ''soda'', ''cola'', ''lemonade'', ''mojito'', ''cocktail'',
     ''wine'', ''beer'', ''whiskey'', ''vodka'', ''gin'', ''rum'', ''champagne'',
     ''mocktail'', ''fresh lime'', ''coconut water'']"

definition pizzaWords :: regex where
  "pizzaWords =
     lit (js ''pizza'')"

definition burgerWords :: regex where
  "burgerWords =
     lit (js ''burger'')"

definition pastaWords :: regex where
  "pastaWords =
     kw [''pasta'', ''noodles'', ''spaghetti'', ''penne'', ''fusilli'', ''lasagna'',
     ''ravioli'', ''gnocchi'', ''linguine'', ''fettuccine'', ''ramen'', ''udon'', ''pho'',
     ''pad thai'']"

definition snackWords :: regex where
  "snackWords =
     kw [''sandwich'', ''roll'', ''wrap'', ''sub'', ''panini'', ''club'', ''blt'',
     ''grilled cheese'']"

definition vegWords :: regex where
  "vegWords =
     alts [lit (backslash @ js ''bveg'' @ backslash @ js ''b''), lit (js ''vegetarian''),
     lit (js ''veggie'')]"

definition vegBlockers :: regex where
  "vegBlockers =
     alts [seqs [lit (js ''non''), Dot, lit (js ''veg'')], lit (js ''chicken''),
     lit (js ''mutton''), lit (js ''fish''), lit (js ''egg''), lit (js ''meat''),
     lit (js ''beef''), lit (js ''lamb''), lit (js ''pork'')]"

definition nonVegWords :: regex where
  "nonVegWords =
     alts [seqs [lit (js ''non''), Dot, lit (js ''veg'')], lit (js ''non-veg''),
     lit (js ''chicken''), lit (js ''mutton''), lit (js ''fish''), lit (js ''meat''),
     lit (js ''egg''), lit (js ''beef''), lit (js ''lamb''), lit (js ''pork''),
     lit (js ''seafood''), lit (js ''prawn''), lit (js ''crab''), lit (js ''lobster'')]"

definition jainWords :: regex where
  "jainWords =
     kw [''jain'', ''no onion'', ''no garlic'']"

definition veganWords :: regex where
  "veganWords =
     lit (js ''vegan'')"

definition glutenFreeWords :: regex where
  "glutenFreeWords =
     alts [seqs [lit (js ''gluten''), Dot, lit (js ''free'')], lit (js ''no gluten'')]"

definition dairyFreeWords :: regex where
  "dairyFreeWords =
     alts [seqs [lit (js ''dairy''), Dot, lit (js ''free'')], lit (js ''no dairy''),
     seqs [lit (js ''lactose''), Dot, lit (js ''free'')]]"

definition ketoWords :: regex where
  "ketoWords =
     kw [''keto'', ''ketogenic'', ''low carb'']"

definition organicWords :: regex where
  "organicWords =
     kw [''organic'', ''natural'', ''farm fresh'']"

definition mildWords :: regex where
  "mildWords =
     kw [''mild'', ''not spicy'', ''less spicy'', ''no spice'', ''bland'']"

definition mediumWords :: regex where
  "mediumWords =
     kw [''medium spicy'', ''moderately spicy'', ''medium heat'']"

definition spicyWords :: regex where
  "spicyWords =
     kw [''spicy'', ''hot'', ''very spicy'', ''extra spicy'', ''fiery'', ''burning'',
     ''chili hot'']"

definition extraSpicyWords :: regex where
  "extraSpicyWords =
     kw [''extremely spicy'', ''super hot'', ''devil hot'', ''ghost pepper'']"

definition cuisinePattern :: regex where
  "cuisinePattern =
     Grp 1 (kw [''north indian'', ''south indian'', ''chinese'', ''italian'', ''mexican'',
     ''thai'', ''american'', ''continental'', ''arabic'', ''lebanese'', ''turkish'',
     ''iranian'', ''punjabi'', ''gujarati'', ''maharashtrian'', ''bengali'', ''rajasthani'',
     ''kerala'', ''tamil'', ''kashmiri'', ''hyderabadi'', ''lucknowi'', ''awadhi'',
     ''mughlai'', ''street food'', ''fast food'', ''mediterranean'', ''japanese'',
     ''korean'', ''vietnamese'', ''malaysian'', ''singaporean'', ''indonesian'',
     ''filipino'', ''greek'', ''french'', ''spanish'', ''german'', ''russian'', ''african'',
     ''moroccan'', ''egyptian'', ''ethiopian'', ''brazilian'', ''peruvian'',
     ''argentinian'', ''canadian'', ''australian''])"

definition unavailableWords :: regex where
  "unavailableWords =
     kw [''out of stock'', ''not available'', ''unavailable'', ''sold out'',
     ''temporarily unavailable'', ''coming soon'', ''seasonal'', ''limited time'',
     ''weekend only'', ''dinner only'', ''lunch only'']"

definition popularWords :: regex where
  "popularWords =
     kw [''popular'', ''recommended'', ''bestseller'', ''chef special'', ''house special'',
     ''signature'', ''most ordered'', ''top rated'', ''customer favorite'', ''must try'',
     ''highly recommended'', ''award winning'', ''famous'', ''legendary'', ''authentic'',
     ''traditional'', ''classic'', ''premium'', ''deluxe'', ''royal'', ''special'',
     ''exclusive'', ''limited edition'']"

definition timePattern :: regex where
  "timePattern =
     seqs [Grp 1 (seqs [lit (backslash), Rep 1 None (lit (js ''d''))]), lit (backslash),
     Rep 0 None (lit (js ''s'')), kw [''min'', ''minutes'', ''hrs'', ''hours'']]"

definition portionPattern :: regex where
  "portionPattern =
     Grp 1 (alts [lit (js ''half''), lit (js ''full''), lit (js ''large''),
     lit (js ''medium''), lit (js ''small''), lit (js ''family''), lit (js ''sharing''),
     lit (js ''single''), lit (js ''double''), lit (js ''triple''),
     seqs [lit (js ''serves '' @ backslash), Rep 1 None (lit (js ''d''))],
     seqs [lit (backslash), Rep 1 None (lit (js ''d'')), lit (js '' pieces'')],
     seqs [lit (backslash), Rep 1 None (lit (js ''d'')), lit (js '' pcs'')]])"

definition caloriesPattern :: regex where
  "caloriesPattern =
     seqs [Grp 1 (seqs [lit (backslash), Rep 1 None (lit (js ''d''))]), lit (backslash),
     Rep 0 None (lit (js ''s'')), kw [''cal'', ''calories'', ''kcal'']]"

text \<open>The object pushed for an element: the common fields and three more.\<close>

record realMenuItem = menuItem +
  portion_size :: "jsstring option"
  calories :: "jsnumber option"
  source :: jsstring

text \<open>\<^verbatim>\<open>const text = element.innerText?.trim() || '';\<close>\<close>

definition elementText :: "jsstring option \<Rightarrow> jsstring" where
  "elementText innerText = (case innerText of None \<Rightarrow> [] | Some t \<Rightarrow> trim t)"

text \<open>
  \<^verbatim>\<open>const lines = text.split('\\n').filter(line => line.trim().length > 0);\<close>
  The separator is the two code units backslash and \<open>n\<close>.
\<close>

definition linesOf :: "jsstring \<Rightarrow> jsstring list" where
  "linesOf text = filter (\<lambda>line. length (trim line) > 0) (split2 92 110 [] text)"

text \<open>
  \<^verbatim>\<open>
  let itemName = lines[0]?.trim() || text.substring(0, 120).trim();
  itemName = itemName.replace(/[^a-zA-Z0-9\\s'&.,-]/g, ' ').replace(/\\s+/g, ' ').trim();
  \<close>
\<close>

definition firstLine :: "jsstring list \<Rightarrow> jsstring \<Rightarrow> jsstring" where
  "firstLine lines text =
     (case lines of
        [] \<Rightarrow> trim (take 120 text)
      | l # _ \<Rightarrow> if trim l = [] then trim (take 120 text) else trim l)"

definition cleanName :: "jsstring \<Rightarrow> jsstring" where
  "cleanName itemName =
     trim (replaceAll False nameSpaces (js '' '') (replaceAll False nameJunk (js '' '') itemName))"

text \<open>
  \<^verbatim>\<open>
  let price = null;
  for (const pattern of pricePatterns) {
    const match = text.match(pattern);
    if (match) { price = parseFloat(match[1]); break; }
  }
  \<close>
\<close>

fun priceLoop :: "regex list \<Rightarrow> jsstring \<Rightarrow> jsnumber option" where
  "priceLoop [] text = None"
| "priceLoop (pattern # patterns) text =
     (case exec True pattern text of
        Some match \<Rightarrow> Some (parseFloat (grp match 1))
      | None \<Rightarrow> priceLoop patterns text)"

definition priceOf :: "jsstring \<Rightarrow> jsnumber option" where
  "priceOf text = priceLoop pricePatterns text"

text \<open>
  \<^verbatim>\<open>
  let description = '';
  if (lines.length > 1) {
    description = lines.slice(1).join(' ').trim();
  } else if (text.length > itemName.length + 15) {
    description = text.substring(itemName.length).trim();
  }
  \<close>
\<close>

definition descriptionOf :: "jsstring list \<Rightarrow> jsstring \<Rightarrow> jsstring \<Rightarrow> jsstring" where
  "descriptionOf lines text itemName =
     (if length lines > 1 then trim (joinWith (js '' '') (tl lines))
      else if length text > length itemName + 15 then trim (drop (length itemName) text)
      else [])"

text \<open>The category: an \<open>if\<close> \<open>else if\<close> chain over the lowered text.\<close>

definition categoryOf :: "jsstring \<Rightarrow> jsstring" where
  "categoryOf lowerText =
     (if test True starterWords lowerText then js ''starter''
      else if test True dessertWords lowerText then js ''dessert''
      else if test True riceWords lowerText then js ''rice''
      else if test True breadWords lowerText then js ''bread''
      else if test True curryWords lowerText then js ''curry''
      else if test True beverageWords lowerText then js ''beverage''
      else if test True pizzaWords lowerText then js ''pizza''
      else if test True burgerWords lowerText then js ''burger''
      else if test True pastaWords lowerText then js ''pasta''
      else if test True snackWords lowerText then js ''snack''
      else js ''main'')"

text \<open>The dietary tags: eight independent checks, each pushing one tag.\<close>

definition dietaryInfoOf :: "jsstring \<Rightarrow> jsstring list" where
  "dietaryInfoOf lowerText =
     (if test True vegWords lowerText \<and> \<not> test True vegBlockers lowerText
      then [js ''vegetarian''] else [])
     @ (if test True nonVegWords lowerText then [js ''non-vegetarian''] else [])
     @ (if test True jainWords lowerText then [js ''jain''] else [])
     @ (if test True veganWords lowerText then [js ''vegan''] else [])
     @ (if test True glutenFreeWords lowerText then [js ''gluten-free''] else [])
     @ (if test True dairyFreeWords lowerText then [js ''dairy-free''] else [])
     @ (if test True ketoWords lowerText then [js ''keto''] else [])
     @ (if test True organicWords lowerText then [js ''organic''] else [])"

text \<open>The spice level: \<open>null\<close>, or the first of four checks that holds.\<close>

definition spiceLevelOf :: "jsstring \<Rightarrow> jsstring option" where
  "spiceLevelOf lowerText =
     (if test True mildWords lowerText then Some (js ''mild'')
      else if test True mediumWords lowerText then Some (js ''medium'')
      else if test True spicyWords lowerText then Some (js ''spicy'')
      else if test True extraSpicyWords lowerText then Some (js ''extra-spicy'')
      else None)"

text \<open>
  \<^verbatim>\<open>
  const cuisineMatch = text.match(cuisinePattern);
  const cuisine = cuisineMatch ? cuisineMatch[0].toLowerCase() : null;
  \<close>
  The pattern has the flag \<open>g\<close>, so \<open>cuisineMatch[0]\<close> is the text of the first match.
\<close>

definition cuisineOf :: "jsstring \<Rightarrow> jsstring option" where
  "cuisineOf text = map_option (\<lambda>m. toLowerCase (whole m)) (exec True cuisinePattern text)"

definition isAvailableOf :: "jsstring \<Rightarrow> bool" where
  "isAvailableOf lowerText = (\<not> test True unavailableWords lowerText)"

definition isPopularOf :: "jsstring \<Rightarrow> bool" where
  "isPopularOf lowerText = test True popularWords lowerText"

text \<open>
  \<^verbatim>\<open>
  const timeMatch = text.match(/(\\d+)\\s*(?:min|minutes|hrs|hours)/i);
  const prepTime = timeMatch ? `${timeMatch[1]} ${timeMatch[0].includes('hr') ? 'hrs' : 'min'}` : null;
  \<close>
  An \<open>undefined\<close> group would print as the word; group 1 of this pattern always takes
  part in a match.
\<close>

definition prepTimeOf :: "jsstring \<Rightarrow> jsstring option" where
  "prepTimeOf text =
     map_option
       (\<lambda>m. (case grp m 1 of None \<Rightarrow> js ''undefined'' | Some g \<Rightarrow> g) @ js '' ''
             @ (if includesStr (whole m) (js ''hr'') then js ''hrs'' else js ''min''))
       (exec True timePattern text)"

definition portionSizeOf :: "jsstring \<Rightarrow> jsstring option" where
  "portionSizeOf text = (case exec True portionPattern text of None \<Rightarrow> None | Some m \<Rightarrow> grp m 1)"

definition caloriesOf :: "jsstring \<Rightarrow> jsnumber option" where
  "caloriesOf text = map_option (\<lambda>m. parseInt (grp m 1)) (exec True caloriesPattern text)"

text \<open>
  The callback of \<open>allElements.forEach\<close>: \<open>None\<close> when it returns without a push, the
  pushed object otherwise.
\<close>

definition menuItemOf :: "jsstring option \<Rightarrow> realMenuItem option" where
  "menuItemOf innerText =
     (let text = elementText innerText in
      if length text < 4 \<or> length text > 800 then None
      else if (test True foodKeywords text \<or> test True priceKeywords text)
              \<and> \<not> test True excludeKeywords text
      then (let lines = linesOf text;
                itemName = cleanName (firstLine lines text);
                lowerText = toLowerCase text
            in if length itemName > 2 \<and> length itemName < 300
               then Some \<lparr>name = itemName,
                          description = take 500 (descriptionOf lines text itemName),
                          price = priceOf text,
                          category = categoryOf lowerText,
                          cuisine_type = cuisineOf text,
                          dietary_info = dietaryInfoOf lowerText,
                          spice_level = spiceLevelOf lowerText,
                          is_available = isAvailableOf lowerText,
                          is_popular = isPopularOf lowerText,
                          preparation_time = prepTimeOf text,
                          portion_size = portionSizeOf text,
                          calories = caloriesOf text,
                          source = js ''real_extraction''\<rparr>
               else None)
      else None)"

text \<open>The array \<open>items\<close> after the \<open>forEach\<close> over all elements.\<close>

definition extractItems :: "jsstring option list \<Rightarrow> realMenuItem list" where
  "extractItems elements = List.map_filter menuItemOf elements"

section \<open>The complete-menu scraper: one element of the page\<close>

text \<open>
  \<open>extractAllMenuItems\<close> is a second menu scraper of the same shape with shorter
  keyword lists; it is the one that removes duplicates by name and price.  Where its
  names are those of the scraper above, they carry the suffix \<open>All\<close> here.
\<close>

definition foodKeywordsAll :: regex where
  "foodKeywordsAll =
     kw [''curry'', ''rice'', ''bread'', ''naan'', ''chicken'', ''mutton'', ''paneer'',
     ''dal'', ''samosa'', ''biryani'', ''tandoor'', ''masala'', ''tikka'', ''kebab'',
     ''dosa'', ''idli'', ''vada'', ''pasta'', ''noodles'', ''fried'', ''soup'', ''salad'',
     ''dessert'', ''ice cream'', ''cake'', ''sweet'', ''pizza'', ''burger'', ''sandwich'',
     ''roll'', ''wrap'', ''juice'', ''lassi'', ''tea'', ''coffee'', ''chapati'', ''roti'',
     ''paratha'', ''kulcha'', ''raita'', ''pickle'', ''papad'', ''gulab jamun'',
     ''rasmalai'', ''kheer'', ''halwa'', ''payasam'', ''rabri'', ''kulfi'', ''falooda'',
     ''brownie'', ''pastry'', ''mousse'', ''tart'', ''pie'', ''croissant'', ''bagel'',
     ''waffle'', ''pancake'', ''omelette'', ''scrambled'', ''toast'', ''cereal'',
     ''yogurt'', ''smoothie'', ''milkshake'', ''lemonade'', ''mojito'', ''cocktail'',
     ''wine'', ''beer'', ''whiskey'', ''vodka'', ''gin'', ''rum'']"

definition priceKeywordsAll :: regex where
  "priceKeywordsAll =
     alts [lit (rupee), lit (js ''rs''), seqs [lit (backslash), Eol], lit (js ''aed''),
     lit (js ''sar''), lit (js ''kwd''), lit (js ''bhd''), lit (js ''qar''),
     lit (js ''price''), lit (js ''cost''), seqs [lit (backslash),
     Rep 1 None (lit (js ''d'')), lit (backslash), Dot, lit (backslash),
     Rep 1 None (lit (js ''d''))], seqs [lit (backslash), Rep 1 None (lit (js ''d'')),
     lit (backslash), Rep 0 None (lit (js ''s'')), lit (js ''only'')],
     lit (js ''starting''), lit (js ''from'')]"

definition navigationKeywords :: regex where
  "navigationKeywords =
     kw [''login'', ''signup'', ''cart'', ''checkout'', ''home'', ''about'', ''contact'',
     ''delivery'', ''offers'', ''discount'', ''download'', ''app'', ''search'', ''filter'',
     ''sort'', ''location'', ''city'', ''order now'', ''view all'', ''show more'',
     ''load more'', ''continue'', ''next'', ''previous'', ''back'', ''menu'',
     ''categories'', ''restaurant info'', ''reviews'', ''photos'', ''directions'', ''call'',
     ''book table'', ''reserve'', ''share'', ''favorite'', ''wishlist'', ''follow'',
     ''like'', ''rating'', ''review'', ''write review'', ''upload photo'', ''report'',
     ''help'', ''support'', ''terms'', ''privacy'', ''policy'', ''footer'', ''header'',
     ''navbar'', ''sidebar'', ''advertisement'', ''ad'', ''sponsored'', ''promotion'',
     ''banner'', ''popup'', ''modal'', ''overlay'', ''loading'', ''error'', ''404'',
     ''500'', ''not found'', ''server error'', ''maintenance'', ''coming soon'',
     ''under construction'']"

definition pricePatternsAll :: "regex list" where
  "pricePatternsAll =
     [seqs [lit (rupee @ backslash), Rep 0 None (lit (js ''s'')),
       Grp 1 (seqs [lit (backslash), Rep 1 None (lit (js ''d'')),
       Rep 0 (Some 1) (seqs [lit (backslash), Dot, lit (backslash),
       Rep 2 (Some 2) (lit (js ''d''))])])],
      seqs [lit (js ''rs'' @ backslash), Rep 0 (Some 1) Dot, lit (backslash),
       Rep 0 None (lit (js ''s'')), Grp 1 (seqs [lit (backslash),
       Rep 1 None (lit (js ''d''))])],
      seqs [lit (backslash), Eol, lit (backslash), Rep 0 None (lit (js ''s'')),
       Grp 1 (seqs [lit (backslash), Rep 1 None (lit (js ''d'')),
       Rep 0 (Some 1) (seqs [lit (backslash), Dot, lit (backslash),
       Rep 2 (Some 2) (lit (js ''d''))])])],
      seqs [lit (js ''aed'' @ backslash), Rep 0 None (lit (js ''s'')),
       Grp 1 (seqs [lit (backslash), Rep 1 None (lit (js ''d''))])],
      seqs [lit (js ''sar'' @ backslash), Rep 0 None (lit (js ''s'')),
       Grp 1 (seqs [lit (backslash), Rep 1 None (lit (js ''d''))])],
      seqs [Grp 1 (seqs [lit (backslash), Rep 1 None (lit (js ''d''))]), lit (backslash),
       Rep 0 None (lit (js ''s'')), lit (rupee)],
      seqs [Grp 1 (seqs [lit (backslash), Rep 1 None (lit (js ''d''))]), lit (backslash),
       Rep 0 None (lit (js ''s'')), lit (js ''rs'')]]"

definition starterWordsAll :: regex where
  "starterWordsAll =
     kw [''starter'', ''appetizer'', ''soup'', ''salad'', ''tikka'', ''kebab'', ''samosa'',
     ''pakora'', ''chaat'', ''cutlet'', ''finger food'']"

definition dessertWordsAll :: regex where
  "dessertWordsAll =
     kw [''dessert'', ''sweet'', ''ice cream'', ''cake'', ''kulfi'', ''gulab jamun'',
     ''rasmalai'', ''kheer'', ''halwa'', ''payasam'', ''rabri'', ''falooda'', ''brownie'',
     ''pastry'', ''mousse'', ''tart'', ''pie'']"

definition riceWordsAll :: regex where
  "riceWordsAll =
     kw [''rice'', ''biryani'', ''pulao'', ''fried rice'', ''jeera rice'', ''coconut rice'',
     ''lemon rice'']"

definition breadWordsAll :: regex where
  "breadWordsAll =
     kw [''bread'', ''naan'', ''roti'', ''paratha'', ''kulcha'', ''chapati'', ''puri'',
     ''bhatura'', ''kulcha'']"

definition curryWordsAll :: regex where
  "curryWordsAll =
     kw [''dal'', ''curry'', ''gravy'', ''sabji'', ''subzi'', ''korma'', ''masala'',
     ''kadai'']"

definition beverageWordsAll :: regex where
  "beverageWordsAll =
     kw [''drink'', ''beverage'', ''juice'', ''lassi'', ''tea'', ''coffee'', ''shake'',
     ''smoothie'', ''water'', ''soda'', ''cola'', ''lemonade'', ''mojito'', ''cocktail'',
     ''wine'', ''beer'', ''whiskey'', ''vodka'']"

definition pizzaWordsAll :: regex where
  "pizzaWordsAll =
     lit (js ''pizza'')"

definition burgerWordsAll :: regex where
  "burgerWordsAll =
     lit (js ''burger'')"

definition pastaWordsAll :: regex where
  "pastaWordsAll =
     kw [''pasta'', ''noodles'', ''spaghetti'', ''penne'', ''fusilli'', ''lasagna'']"

definition snackWordsAll :: regex where
  "snackWordsAll =
     kw [''sandwich'', ''roll'', ''wrap'', ''sub'', ''panini'']"

definition vegWordsAll :: regex where
  "vegWordsAll =
     kw [''veg'', ''vegetarian'']"

definition vegBlockersAll :: regex where
  "vegBlockersAll =
     alts [seqs [lit (js ''non''), Dot, lit (js ''veg'')], lit (js ''chicken''),
     lit (js ''mutton''), lit (js ''fish''), lit (js ''egg''), lit (js ''meat'')]"

definition nonVegWordsAll :: regex where
  "nonVegWordsAll =
     alts [seqs [lit (js ''non''), Dot, lit (js ''veg'')], lit (js ''chicken''),
     lit (js ''mutton''), lit (js ''fish''), lit (js ''meat''), lit (js ''egg''),
     lit (js ''beef''), lit (js ''lamb''), lit (js ''pork'')]"

definition jainWordsAll :: regex where
  "jainWordsAll =
     lit (js ''jain'')"

definition veganWordsAll :: regex where
  "veganWordsAll =
     lit (js ''vegan'')"

definition glutenFreeWordsAll :: regex where
  "glutenFreeWordsAll =
     seqs [lit (js ''gluten''), Dot, lit (js ''free'')]"

definition mildWordsAll :: regex where
  "mildWordsAll =
     kw [''mild'', ''not spicy'', ''less spicy'']"

definition mediumWordsAll :: regex where
  "mediumWordsAll =
     kw [''medium spicy'', ''moderately spicy'']"

definition spicyWordsAll :: regex where
  "spicyWordsAll =
     kw [''spicy'', ''hot'', ''very spicy'', ''extra spicy'']"

definition cuisinePatternAll :: regex where
  "cuisinePatternAll =
     Grp 1 (kw [''north indian'', ''south indian'', ''chinese'', ''italian'', ''mexican'',
     ''thai'', ''american'', ''continental'', ''arabic'', ''lebanese'', ''turkish'',
     ''iranian'', ''punjabi'', ''gujarati'', ''maharashtrian'', ''bengali'', ''rajasthani'',
     ''kerala'', ''tamil'', ''kashmiri'', ''hyderabadi'', ''lucknowi'', ''awadhi'',
     ''mughlai'', ''street food'', ''fast food''])"

definition unavailableWordsAll :: regex where
  "unavailableWordsAll =
     kw [''out of stock'', ''not available'', ''unavailable'', ''sold out'',
     ''temporarily unavailable'']"

definition popularWordsAll :: regex where
  "popularWordsAll =
     kw [''popular'', ''recommended'', ''bestseller'', ''chef special'', ''house special'',
     ''signature'', ''most ordered'', ''top rated'']"

definition timePatternAll :: regex where
  "timePatternAll =
     seqs [Grp 1 (seqs [lit (backslash), Rep 1 None (lit (js ''d''))]), lit (backslash),
     Rep 0 None (lit (js ''s'')), lit (js ''min'')]"

text \<open>The object it pushes: the common fields and the head of the text.\<close>

record allMenuItem = menuItem +
  full_text :: jsstring

text \<open>
  \<^verbatim>\<open>
  const lines = text.split('\\n').filter(line => line.trim().length > 0);
  const itemName = lines[0]?.trim() || text.substring(0, 100).trim();
  \<close>
\<close>

definition firstLineAll :: "jsstring list \<Rightarrow> jsstring \<Rightarrow> jsstring" where
  "firstLineAll lines text =
     (case lines of
        [] \<Rightarrow> trim (take 100 text)
      | l # _ \<Rightarrow> if trim l = [] then trim (take 100 text) else trim l)"

definition priceOfAll :: "jsstring \<Rightarrow> jsnumber option" where
  "priceOfAll text = priceLoop pricePatternsAll text"

definition descriptionOfAll :: "jsstring list \<Rightarrow> jsstring \<Rightarrow> jsstring \<Rightarrow> jsstring" where
  "descriptionOfAll lines text itemName =
     (if length lines > 1 then trim (joinWith (js '' '') (tl lines))
      else if length text > length itemName + 10 then trim (drop (length itemName) text)
      else [])"

definition categoryOfAll :: "jsstring \<Rightarrow> jsstring" where
  "categoryOfAll itemText =
     (if test True starterWordsAll itemText then js ''starter''
      else if test True dessertWordsAll itemText then js ''dessert''
      else if test True riceWordsAll itemText then js ''rice''
      else if test True breadWordsAll itemText then js ''bread''
      else if test True curryWordsAll itemText then js ''curry''
      else if test True beverageWordsAll itemText then js ''beverage''
      else if test True pizzaWordsAll itemText then js ''pizza''
      else if test True burgerWordsAll itemText then js ''burger''
      else if test True pastaWordsAll itemText then js ''pasta''
      else if test True snackWordsAll itemText then js ''snack''
      else js ''main'')"

definition dietaryInfoOfAll :: "jsstring \<Rightarrow> jsstring list" where
  "dietaryInfoOfAll itemText =
     (if test True vegWordsAll itemText \<and> \<not> test True vegBlockersAll itemText
      then [js ''vegetarian''] else [])
     @ (if test True nonVegWordsAll itemText then [js ''non-vegetarian''] else [])
     @ (if test True jainWordsAll itemText then [js ''jain''] else [])
     @ (if test True veganWordsAll itemText then [js ''vegan''] else [])
     @ (if test True glutenFreeWordsAll itemText then [js ''gluten-free''] else [])"

definition spiceLevelOfAll :: "jsstring \<Rightarrow> jsstring option" where
  "spiceLevelOfAll itemText =
     (if test True mildWordsAll itemText then Some (js ''mild'')
      else if test True mediumWordsAll itemText then Some (js ''medium'')
      else if test True spicyWordsAll itemText then Some (js ''spicy'')
      else None)"

definition isAvailableOfAll :: "jsstring \<Rightarrow> bool" where
  "isAvailableOfAll itemText = (\<not> test True unavailableWordsAll itemText)"

definition isPopularOfAll :: "jsstring \<Rightarrow> bool" where
  "isPopularOfAll itemText = test True popularWordsAll itemText"

definition cuisineOfAll :: "jsstring \<Rightarrow> jsstring option" where
  "cuisineOfAll text = map_option (\<lambda>m. toLowerCase (whole m)) (exec True cuisinePatternAll text)"

text \<open>
  \<^verbatim>\<open>
  const timeMatch = text.match(/(\\d+)\\s*min/i);
  const prepTime = timeMatch ? `${timeMatch[1]} min` : null;
  \<close>
\<close>

definition prepTimeOfAll :: "jsstring \<Rightarrow> jsstring option" where
  "prepTimeOfAll text =
     map_option (\<lambda>m. (case grp m 1 of None \<Rightarrow> js ''undefined'' | Some g \<Rightarrow> g) @ js '' min'')
       (exec True timePatternAll text)"

text \<open>The callback of its \<open>forEach\<close>, with the nested conditions of the source.\<close>

definition menuItemOfAll :: "jsstring option \<Rightarrow> allMenuItem option" where
  "menuItemOfAll innerText =
     (let text = elementText innerText in
      if length text < 4 \<or> length text > 500 then None
      else if test True foodKeywordsAll text \<or> test True priceKeywordsAll text
      then (if \<not> test True navigationKeywords text
            then (let lines = linesOf text;
                      itemName = firstLineAll lines text;
                      itemText = toLowerCase text
                  in if length itemName > 2 \<and> length itemName < 200
                     then Some \<lparr>name = itemName,
                                description = take 500 (descriptionOfAll lines text itemName),
                                price = priceOfAll text,
                                category = categoryOfAll itemText,
                                cuisine_type = cuisineOfAll text,
                                dietary_info = dietaryInfoOfAll itemText,
                                spice_level = spiceLevelOfAll itemText,
                                is_available = isAvailableOfAll itemText,
                                is_popular = isPopularOfAll itemText,
                                preparation_time = prepTimeOfAll text,
                                full_text = take 400 text\<rparr>
                     else None)
            else None)
      else None)"

section \<open>The deduplicators\<close>

text \<open>
  Every scraper removes duplicates with the same loop:
  \<^verbatim>\<open>
  const unique = [];
  items.forEach(item => {
    const isDuplicate = unique.some(existing => dup(existing, item));
    if (!isDuplicate) unique.push(item);
  });
  \<close>
  \<open>dedupLoop\<close> is the \<open>forEach\<close> with the array \<open>unique\<close> passed along.
\<close>

fun dedupLoop :: "('a \<Rightarrow> 'a \<Rightarrow> bool) \<Rightarrow> 'a list \<Rightarrow> 'a list \<Rightarrow> 'a list" where
  "dedupLoop dup unique [] = unique"
| "dedupLoop dup unique (item # items) =
     dedupLoop dup (if list_ex (\<lambda>existing. dup existing item) unique
                    then unique else unique @ [item]) items"

definition dedup :: "('a \<Rightarrow> 'a \<Rightarrow> bool) \<Rightarrow> 'a list \<Rightarrow> 'a list" where
  "dedup dup items = dedupLoop dup [] items"

text \<open>
  ExactKey, \<open>extractAllMenuItems\<close>:
  \<^verbatim>\<open>
  existing.name.toLowerCase() === item.name.toLowerCase() &&
  existing.price === item.price
  \<close>
\<close>

definition exactDuplicate :: "'a menuItem_scheme \<Rightarrow> 'a menuItem_scheme \<Rightarrow> bool" where
  "exactDuplicate existing item =
     (toLowerCase (name existing) = toLowerCase (name item)
      \<and> strictEqPrice (price existing) (price item))"

text \<open>
  What \<open>extractAllMenuItems\<close> returns for the elements of a page: the pushed objects,
  with exact duplicates removed.
\<close>

definition uniqueMenuItems :: "jsstring option list \<Rightarrow> allMenuItem list" where
  "uniqueMenuItems elements = dedup exactDuplicate (List.map_filter menuItemOfAll elements)"

text \<open>
  FuzzyPrefix, \<open>scrapePlatform\<close>:
  \<^verbatim>\<open>
  const name1 = restaurant.name.toLowerCase();
  const name2 = existing.name.toLowerCase();
  return name1 === name2 ||
         (name1.length > 8 && name2.length > 8 &&
          (name1.includes(name2.substring(0, 6)) || name2.includes(name1.substring(0, 6))));
  \<close>
  (After the loop \<open>scrapePlatform\<close> returns \<open>unique.slice(0, 30)\<close>, the first
  thirty survivors.)
\<close>

definition isDuplicate :: "'a named_scheme \<Rightarrow> 'a named_scheme \<Rightarrow> bool" where
  "isDuplicate existing restaurant =
     (let name1 = toLowerCase (name restaurant);
          name2 = toLowerCase (name existing)
      in name1 = name2 \<or>
         (length name1 > 8 \<and> length name2 > 8 \<and>
          (includesStr name1 (take 6 name2) \<or> includesStr name2 (take 6 name1))))"

text \<open>A list in which no entry is a duplicate of an entry before it.\<close>

fun duplicateFree :: "('a \<Rightarrow> 'a \<Rightarrow> bool) \<Rightarrow> 'a list \<Rightarrow> bool" where
  "duplicateFree dup [] = True"
| "duplicateFree dup (x # xs) = (\<not> list_ex (dup x) xs \<and> duplicateFree dup xs)"

text \<open>Menu items and restaurants to run the deduplicators on.\<close>

definition dalMakhani :: menuItem where
  "dalMakhani = \<lparr>name = js ''Dal Makhani'', description = js ''Black lentils'', price = None,
     category = js ''curry'', cuisine_type = None, dietary_info = [], spice_level = None,
     is_available = True, is_popular = False, preparation_time = None\<rparr>"

definition dalMakhaniUpper :: menuItem where
  "dalMakhaniUpper = dalMakhani\<lparr>name := js ''DAL MAKHANI'', description := []\<rparr>"

definition jeeraRice :: menuItem where
  "jeeraRice = dalMakhani\<lparr>name := js ''Jeera Rice'', category := js ''rice''\<rparr>"

definition spiceGarden :: named where
  "spiceGarden = \<lparr>name = js ''Spice Garden Restaurant''\<rparr>"

definition spiceGardenCut :: named where
  "spiceGardenCut = \<lparr>name = js ''Spice Garden Rest''\<rparr>"

definition tandoorHouse :: named where
  "tandoorHouse = \<lparr>name = js ''Tandoor House''\<rparr>"

section \<open>The restaurant scraper: one element of the page\<close>

text \<open>
  \<open>extractAllRestaurantsFromArea\<close> runs a function of the same shape on every element.
  The patterns that decide whether it pushes a restaurant follow.  (Two more,
  \<open>hasLocationInfo\<close> and \<open>hasPriceInfo\<close>, are computed and never read.)
\<close>

definition restaurantKeywords :: regex where
  "restaurantKeywords =
     kw [''restaurant'', ''cafe'', ''bar'', ''kitchen'', ''bistro'', ''pizza'', ''burger'',
     ''hotel'', ''dhaba'', ''dining'', ''eatery'', ''food court'', ''canteen'', ''mess'',
     ''tiffin'', ''caterer'']"

definition cuisineKeywords :: regex where
  "cuisineKeywords =
     kw [''indian'', ''chinese'', ''italian'', ''mexican'', ''thai'', ''american'',
     ''continental'', ''arabic'', ''lebanese'', ''turkish'', ''iranian'', ''biryani'',
     ''pizza'', ''burger'', ''shawarma'', ''kebab'', ''fast food'', ''north indian'',
     ''south indian'', ''punjabi'', ''gujarati'', ''maharashtrian'', ''bengali'',
     ''rajasthani'', ''kerala'', ''tamil'', ''kashmiri'', ''hyderabadi'', ''lucknowi'',
     ''awadhi'', ''mughlai'', ''street food'', ''continental'', ''mediterranean'',
     ''japanese'', ''korean'', ''vietnamese'', ''malaysian'', ''singaporean'',
     ''indonesian'', ''filipino'']"

definition ratingInfo :: regex where
  "ratingInfo =
     alts [seqs [lit (backslash), Rep 1 None (lit (js ''d'')), lit (backslash), Dot,
     lit (backslash), Rep 1 None (lit (js ''d''))], lit ([9733]), lit ([11088]),
     lit (js ''rating''), lit (js ''review''), lit (js ''star'')]"

definition invalidRestaurant :: regex where
  "invalidRestaurant =
     kw [''login'', ''signup'', ''download'', ''app'', ''home'', ''about'', ''contact'',
     ''privacy'', ''terms'', ''help'', ''support'', ''cart'', ''search'', ''filter'',
     ''location'', ''explore'', ''trending'', ''show more'', ''view all'',
     ''advertisement'', ''ad'', ''sponsored'', ''promotion'', ''banner'', ''popup'',
     ''modal'', ''overlay'', ''loading'', ''error'', ''maintenance'', ''footer'',
     ''header'', ''navbar'', ''sidebar'', ''breadcrumb'', ''pagination'', ''sort'',
     ''category'', ''collection'', ''featured'', ''popular'', ''recommended'', ''new'',
     ''top rated'', ''best'']"

definition restaurantNameJunk :: regex where
  "restaurantNameJunk =
     Cls True [(97, 122), (65, 90), (48, 57), (92, 92), (115, 115), (39, 39), (38, 38), (46,
     46), (45, 45)]"

definition nonRestaurantName :: regex where
  "nonRestaurantName =
     alts [seqs [Bol, lit (backslash), Rep 1 None (lit (js ''d'')), Eol], seqs [Bol,
     Cls False [(97, 122)], Eol], lit (js ''order''), lit (js ''delivery''),
     lit (js ''menu''), lit (js ''restaurant''), lit (js ''food''), lit (js ''dining''),
     lit (js ''cuisine''), seqs [Bol, lit (js ''explore'')], seqs [Bol,
     lit (js ''discover'')], seqs [Bol, lit (js ''find'')], seqs [Bol, lit (js ''search'')],
     seqs [Bol, lit (js ''filter'')], seqs [Bol, lit (js ''sort'')], seqs [Bol,
     lit (js ''view'')], seqs [Bol, lit (js ''show'')], seqs [Bol, lit (js ''see'')],
     seqs [Bol, lit (js ''more'')], seqs [Bol, lit (js ''all'')], seqs [Bol,
     lit (js ''best'')], seqs [Bol, lit (js ''top'')], seqs [Bol, lit (js ''new'')],
     seqs [Bol, lit (js ''popular'')], seqs [Bol, lit (js ''recommended'')], seqs [Bol,
     lit (js ''featured'')], seqs [Bol, lit (js ''trending'')], seqs [Bol,
     lit (js ''offers'')], seqs [Bol, lit (js ''deals'')], seqs [Bol,
     lit (js ''discount'')], seqs [Bol, lit (js ''free'')], seqs [Bol, lit (js ''save'')],
     seqs [Bol, lit (js ''get'')], seqs [Bol, lit (js ''book'')], seqs [Bol,
     lit (js ''reserve'')], seqs [Bol, lit (js ''call'')], seqs [Bol,
     lit (js ''directions'')], seqs [Bol, lit (js ''photos'')], seqs [Bol,
     lit (js ''reviews'')]]"

text \<open>
  \<^verbatim>\<open>
  if ((hasRestaurantKeywords || hasCuisineKeywords || hasRatingInfo) && isValidRestaurant)
  \<close>
\<close>

definition isValidRestaurant :: "jsstring \<Rightarrow> bool" where
  "isValidRestaurant text = (\<not> test True invalidRestaurant text)"

definition restaurantCandidate :: "jsstring \<Rightarrow> bool" where
  "restaurantCandidate text =
     ((test True restaurantKeywords text \<or> test True cuisineKeywords text
       \<or> test True ratingInfo text) \<and> isValidRestaurant text)"

text \<open>
  \<^verbatim>\<open>
  const lines = text.split('\\n').filter(l => l.trim().length > 2);
  let name = lines[0]?.trim() || text.substring(0, 150).trim();
  name = name.replace(/[^a-zA-Z0-9\\s'&.-]/g, ' ').replace(/\\s+/g, ' ').trim();
  \<close>
\<close>

definition restaurantName :: "jsstring \<Rightarrow> jsstring" where
  "restaurantName text =
     (let lines = filter (\<lambda>l. length (trim l) > 2) (split2 92 110 [] text);
          first = (case lines of
                     [] \<Rightarrow> trim (take 150 text)
                   | l # _ \<Rightarrow> if trim l = [] then trim (take 150 text) else trim l)
      in trim (replaceAll False nameSpaces (js '' '')
                 (replaceAll False restaurantNameJunk (js '' '') first)))"

text \<open>
  The callback, as far as it decides whether a restaurant is pushed and under which
  name: \<open>None\<close> when it returns without a push.  The other fields of the pushed object
  (rating, address, phone and so on) are read from the text afterwards and change
  neither.
\<close>

definition restaurantOf :: "jsstring option \<Rightarrow> named option" where
  "restaurantOf innerText =
     (let text = elementText innerText in
      if length text < 10 \<or> length text > 1000 then None
      else if restaurantCandidate text
      then (let name = restaurantName text
            in if length name > 3 \<and> length name < 200 \<and> \<not> test True nonRestaurantName name
               then Some \<lparr>name = name\<rparr> else None)
      else None)"

section \<open>Tables and helpers for the properties\<close>

text \<open>
  The category rows and the spice checks as ordered tables, with the routine the
  specification describes: the first row whose pattern matches gives the outcome.
\<close>

fun firstMatchWins :: "(regex \<times> 'a) list \<Rightarrow> 'a \<Rightarrow> jsstring \<Rightarrow> 'a" where
  "firstMatchWins [] otherwise text = otherwise"
| "firstMatchWins ((pattern, outcome) # rows) otherwise text =
     (if test True pattern text then outcome else firstMatchWins rows otherwise text)"

definition categoryTable :: "(regex \<times> jsstring) list" where
  "categoryTable =
     [(starterWords, js ''starter''), (dessertWords, js ''dessert''), (riceWords, js ''rice''),
      (breadWords, js ''bread''), (curryWords, js ''curry''), (beverageWords, js ''beverage''),
      (pizzaWords, js ''pizza''), (burgerWords, js ''burger''), (pastaWords, js ''pasta''),
      (snackWords, js ''snack'')]"



definition categoryTableAll :: "(regex \<times> jsstring) list" where
  "categoryTableAll =
     [(starterWordsAll, js ''starter''), (dessertWordsAll, js ''dessert''),
      (riceWordsAll, js ''rice''), (breadWordsAll, js ''bread''), (curryWordsAll, js ''curry''),
      (beverageWordsAll, js ''beverage''), (pizzaWordsAll, js ''pizza''),
      (burgerWordsAll, js ''burger''), (pastaWordsAll, js ''pasta''),
      (snackWordsAll, js ''snack'')]"

text \<open>What \<open>toLowerCase\<close> does to an ASCII code unit.\<close>

definition lowerAscii :: "nat \<Rightarrow> nat" where
  "lowerAscii c = (if 65 \<le> c \<and> c \<le> 90 then c + 32 else c)"

text \<open>
  A text holds a keyword, letter case apart; one of a list of texts occurs in a text.
\<close>

definition includesCI :: "bool \<Rightarrow> jsstring \<Rightarrow> jsstring \<Rightarrow> bool" where
  "includesCI ic text w = includesStr (map (canonicalize ic) text) (map (canonicalize ic) w)"

definition hasAny :: "jsstring \<Rightarrow> jsstring list \<Rightarrow> bool" where
  "hasAny text ws = list_ex (includesStr text) ws"

text \<open>The texts the properties are run on.\<close>

definition butterChicken :: jsstring where
  "butterChicken = js ''Butter Chicken '' @ rupee @ js ''299 (was Rs.350)''"

definition biryaniGulabJamun :: jsstring where
  "biryaniGulabJamun = js ''Chicken Biryani with Gulab Jamun''"

definition orderBiryani :: jsstring where
  "orderBiryani = js ''Order Biryani Now - Login to continue''"


definition seasonalLassi :: jsstring where
  "seasonalLassi = js ''Mango Lassi - seasonal''"

definition fishNotAvailable :: jsstring where
  "fishNotAvailable = js ''Fish curry - not available''"

definition margherita :: jsstring where
  "margherita = js ''Classic Margherita Pizza'' @ [10] @ js ''Fresh mozzarella and basil''
                @ [10] @ js ''$12.99''"

definition margheritaEscaped :: jsstring where
  "margheritaEscaped = js ''Classic Margherita Pizza'' @ backslash @ js ''nFresh mozzarella and basil''
                       @ backslash @ js ''n$12.99''"

definition paneerTikka :: jsstring where
  "paneerTikka = js ''Paneer Tikka - Spicy starter, serves 2''"

definition mildExtremelySpicy :: jsstring where
  "mildExtremelySpicy = js ''Wings, mild or extremely spicy''"

definition ghostPepperWings :: jsstring where
  "ghostPepperWings = js ''Ghost pepper wings''"

definition cafeLogin :: jsstring where
  "cafeLogin = js ''Cafe Mocha - Login for table booking''"

section \<open>Properties of \<open>toLowerCase\<close>\<close>

lemma lowerIn_below:
  "list_all (\<lambda>(lo, hi, step, target). c < lo) rows \<Longrightarrow> lowerIn rows c = c"
  by (induction rows) auto

lemma lowercaseMapping_beyond_ascii:
  "list_all (\<lambda>(lo, hi, step, target). 128 \<le> lo) (tl lowercaseMapping)"
  by (simp add: lowercaseMapping_def)

lemma lowercaseMapping_ascii: "lowercaseMapping = (65, 90, 1, 97) # tl lowercaseMapping"
  by (simp add: lowercaseMapping_def)

lemma simpleLower_ascii:
  assumes "c < 128"
  shows "simpleLower c = lowerAscii c"
proof -
  from assms lowercaseMapping_beyond_ascii
  have "list_all (\<lambda>(lo, hi, step, target). c < lo) (tl lowercaseMapping)"
    by (auto simp: list_all_iff)
  then have "lowerIn (tl lowercaseMapping) c = c" by (rule lowerIn_below)
  then have "lowerIn ((65, 90, 1, 97) # tl lowercaseMapping) c = lowerAscii c"
    by (simp add: lowerAscii_def)
  with lowercaseMapping_ascii show ?thesis by (simp add: simpleLower_def)
qed

lemma lowerAscii_ascii: "c < 128 \<Longrightarrow> lowerAscii c < 128"
  by (simp add: lowerAscii_def)

lemma lowerPoint_ascii: "c < 128 \<Longrightarrow> lowerPoint preceding c following = [lowerAscii c]"
  by (simp add: lowerPoint_def simpleLower_ascii)

lemma lowerFrom_ascii:
  "list_all (\<lambda>c. c < 128) w \<Longrightarrow>
   lowerFrom preceding (w @ following) = map lowerAscii w @ lowerFrom (rev w @ preceding) following"
  by (induction w arbitrary: preceding) (simp_all add: lowerPoint_ascii)

lemma lowerFrom_prefix:
  "\<exists>u. lowerFrom preceding (xs @ ys) = u @ lowerFrom (rev xs @ preceding) ys"
proof (induction xs arbitrary: preceding)
  case Nil
  show ?case by simp
next
  case (Cons x xs)
  from Cons [of "x # preceding"] obtain u
    where "lowerFrom (x # preceding) (xs @ ys) = u @ lowerFrom (rev xs @ x # preceding) ys"
    by blast
  then show ?case by simp
qed

lemma codePoints_single:
  "\<not> isLeadingSurrogate c \<Longrightarrow> codePoints (c # cs) = c # codePoints cs"
  by (cases cs) simp_all

lemma codePoints_ascii:
  "list_all (\<lambda>c. c < 128) w \<Longrightarrow> codePoints (w @ cs) = w @ codePoints cs"
  by (induction w) (simp_all add: codePoints_single isLeadingSurrogate_def)

lemma codePoints_prefix:
  "\<not> isTrailingSurrogate c \<Longrightarrow> \<exists>u. codePoints (xs @ c # cs) = u @ codePoints (c # cs)"
proof (induction xs rule: codePoints.induct)
  case 1
  show ?case by simp
next
  case (2 x)
  then show ?case by simp
next
  case (3 lead trail more)
  show ?case
  proof (cases "isLeadingSurrogate lead \<and> isTrailingSurrogate trail")
    case True
    with 3 obtain u where "codePoints (more @ c # cs) = u @ codePoints (c # cs)" by blast
    with True have "codePoints ((lead # trail # more) @ c # cs) =
        (((lead - 55296) * 1024 + (trail - 56320) + 65536) # u) @ codePoints (c # cs)"
      by simp
    then show ?thesis by blast
  next
    case False
    with 3 obtain u where "codePoints ((trail # more) @ c # cs) = u @ codePoints (c # cs)"
      by blast
    moreover from False have "codePoints ((lead # trail # more) @ c # cs) =
        lead # codePoints ((trail # more) @ c # cs)"
      by auto
    ultimately have "codePoints ((lead # trail # more) @ c # cs) =
        (lead # u) @ codePoints (c # cs)"
      by simp
    then show ?thesis by blast
  qed
qed

lemma codeUnits_lowerAscii:
  "list_all (\<lambda>c. c < 128) w \<Longrightarrow> concat (map (codeUnits \<circ> lowerAscii) w) = map lowerAscii w"
  by (induction w) (simp_all add: codeUnits_def lowerAscii_def)

text \<open>On ASCII texts \<open>toLowerCase\<close> is the lowering of the capitals A to Z.\<close>

lemma toLowerCase_ascii:
  assumes "list_all (\<lambda>c. c < 128) s"
  shows "toLowerCase s = map lowerAscii s"
proof -
  from assms codePoints_ascii [of s "[]"] have "codePoints s = s" by simp
  moreover from assms lowerFrom_ascii [of s "[]" "[]"] have "lowerFrom [] s = map lowerAscii s"
    by simp
  ultimately show ?thesis
    using assms by (simp add: toLowerCase_def codeUnits_lowerAscii)
qed

text \<open>
  An ASCII word in a text is in the lowered text too, lowered: whatever surrounds it, the
  code units of the word are code points by themselves and are lowered by themselves.
\<close>

lemma toLowerCase_around:
  assumes "w \<noteq> []" and "list_all (\<lambda>c. c < 128) w"
  shows "\<exists>u v. toLowerCase (a @ w @ b) = u @ map lowerAscii w @ v"
proof -
  from assms obtain c w' where w: "w = c # w'" and c: "c < 128"
    and w': "list_all (\<lambda>c. c < 128) w'"
    by (cases w) auto
  from c have "\<not> isTrailingSurrogate c" by (simp add: isTrailingSurrogate_def)
  from codePoints_prefix [OF this, of a "w' @ b"] obtain p
    where "codePoints (a @ c # w' @ b) = p @ codePoints (c # w' @ b)" by blast
  moreover from assms(2) codePoints_ascii [of w b] w
  have "codePoints (c # w' @ b) = w @ codePoints b" by simp
  ultimately have points: "codePoints (a @ w @ b) = p @ w @ codePoints b"
    using w by simp
  from lowerFrom_prefix [of "[]" p "w @ codePoints b"] obtain q
    where "lowerFrom [] (p @ w @ codePoints b) = q @ lowerFrom (rev p @ []) (w @ codePoints b)"
    by blast
  with assms(2) lowerFrom_ascii [of w "rev p @ []" "codePoints b"]
  have "lowerFrom [] (p @ w @ codePoints b) =
      q @ map lowerAscii w @ lowerFrom (rev w @ rev p @ []) (codePoints b)"
    by simp
  with points assms(2) have "toLowerCase (a @ w @ b) =
      concat (map codeUnits q) @ map lowerAscii w
      @ concat (map codeUnits (lowerFrom (rev w @ rev p @ []) (codePoints b)))"
    by (simp add: toLowerCase_def codeUnits_lowerAscii)
  then show ?thesis by blast
qed

text \<open>
  Beyond ASCII: \<open>CAF\<close> with U+00C9 lowers to \<open>caf\<close> with U+00E9, a Deseret capital
  (a surrogate pair) to its small letter, U+0130 to two code units, and the capital sigma to
  the final sigma at the end of a word only.
\<close>

lemma toLowerCase_beyond_ascii:
  "toLowerCase [67, 65, 70, 201] = [99, 97, 102, 233]"
  "toLowerCase [99, 97, 102, 233] = [99, 97, 102, 233]"
  "toLowerCase [55297, 56320] = [55297, 56360]"
  "toLowerCase [304] = [105, 775]"
  "toLowerCase [927, 916, 927, 931] = [959, 948, 959, 962]"
  "toLowerCase [931, 927] = [963, 959]"
  by (simp_all add: toLowerCase_def lowerPoint_def simpleLower_def lowercaseMapping_def
      finalSigma_def inRanges_def casedRanges_def caseIgnorableRanges_def codeUnits_def
      isLeadingSurrogate_def isTrailingSurrogate_def)

section \<open>Properties of the deduplicators\<close>

lemma duplicateFree_snoc:
  "duplicateFree dup (u @ [x]) = (duplicateFree dup u \<and> \<not> list_ex (\<lambda>e. dup e x) u)"
  by (induction u) (auto simp: list_ex_iff)

lemma dedupLoop_duplicateFree:
  "duplicateFree dup u \<Longrightarrow> duplicateFree dup (dedupLoop dup u xs)"
  by (induction xs arbitrary: u) (simp_all add: duplicateFree_snoc)

lemma dedupLoop_fixed:
  "duplicateFree dup (u @ v) \<Longrightarrow> dedupLoop dup u v = u @ v"
proof (induction v arbitrary: u)
  case Nil
  then show ?case by simp
next
  case (Cons x v)
  have split: "u @ x # v = (u @ [x]) @ v" by simp
  from Cons.prems have df: "duplicateFree dup ((u @ [x]) @ v)" by (simp only: split)
  have "duplicateFree dup (u @ [x])"
    using df by (induction u) (auto simp: list_ex_iff)
  then have "\<not> list_ex (\<lambda>e. dup e x) u" by (simp add: duplicateFree_snoc)
  then show ?case using Cons.IH [OF df] by simp
qed

lemma dedup_duplicateFree: "duplicateFree dup (dedup dup xs)"
  by (simp add: dedup_def dedupLoop_duplicateFree)

lemma dedup_fixed: "duplicateFree dup xs \<Longrightarrow> dedup dup xs = xs"
  using dedupLoop_fixed [of dup "[]" xs] by (simp add: dedup_def)

text \<open>
  C6.  The deduplicator is idempotent under either policy: running it on its own output
  changes nothing, for the exact key (lower-cased name and strictly equal price) and for
  the fuzzy prefix comparison of lower-cased names.  In particular the list that
  \<open>extractAllMenuItems\<close> returns is left as it is.
\<close>

theorem dedup_idempotent:
  "dedup exactDuplicate (dedup exactDuplicate X) = dedup exactDuplicate X
   \<and> dedup isDuplicate (dedup isDuplicate Y) = dedup isDuplicate Y
   \<and> dedup exactDuplicate (uniqueMenuItems elements) = uniqueMenuItems elements"
  by (simp add: dedup_fixed dedup_duplicateFree uniqueMenuItems_def)

theorem dedup_idempotent_witness:
  "dedup exactDuplicate (dedup exactDuplicate [dalMakhani, jeeraRice, dalMakhaniUpper])
     = dedup exactDuplicate [dalMakhani, jeeraRice, dalMakhaniUpper]
   \<and> dedup isDuplicate (dedup isDuplicate [spiceGarden, tandoorHouse, spiceGardenCut])
     = dedup isDuplicate [spiceGarden, tandoorHouse, spiceGardenCut]
   \<and> dedup exactDuplicate (uniqueMenuItems [Some paneerTikka, None, Some paneerTikka])
     = uniqueMenuItems [Some paneerTikka, None, Some paneerTikka]"
  by (rule dedup_idempotent)

lemma dedupLoop_snoc:
  "dedupLoop dup u (xs @ [x]) =
     (if list_ex (\<lambda>existing. dup existing x) (dedupLoop dup u xs)
      then dedupLoop dup u xs else dedupLoop dup u xs @ [x])"
  by (induction xs arbitrary: u) simp_all

lemma dedupLoop_subseq: "\<exists>w. dedupLoop dup u xs = u @ w \<and> subseq w xs"
proof (induction xs arbitrary: u)
  case Nil
  then show ?case by simp
next
  case (Cons x xs)
  show ?case
  proof (cases "list_ex (\<lambda>existing. dup existing x) u")
    case True
    from Cons.IH [of u] obtain w where "dedupLoop dup u xs = u @ w" "subseq w xs" by blast
    with True show ?thesis by (auto intro: subseq_Cons')
  next
    case False
    from Cons.IH [of "u @ [x]"] obtain w
      where "dedupLoop dup (u @ [x]) xs = (u @ [x]) @ w" "subseq w xs" by blast
    with False have "dedupLoop dup u (x # xs) = u @ (x # w) \<and> subseq (x # w) (x # xs)"
      by simp
    then show ?thesis by blast
  qed
qed

lemma dedup_subseq: "subseq (dedup dup xs) xs"
  using dedupLoop_subseq [of dup "[]" xs] by (auto simp: dedup_def)

text \<open>
  C7 as stated fails: in \<open>[A, B, A']\<close> nothing keeps \<open>B\<close> from being a duplicate of
  \<open>A\<close> as well, and then \<open>B\<close> is dropped too.  With the same dish under two spellings
  of its name for \<open>A\<close> and \<open>B\<close>, only \<open>A\<close> is left.
\<close>

theorem dedup_three_counterexample:
  "exactDuplicate dalMakhani dalMakhani
   \<and> dedup exactDuplicate [dalMakhani, dalMakhaniUpper, dalMakhani]
       \<noteq> [dalMakhani, dalMakhaniUpper]"
  by (simp add: dedup_def exactDuplicate_def dalMakhani_def dalMakhaniUpper_def
      toLowerCase_ascii lowerAscii_def js_def)

text \<open>
  C7, amended.  The deduplicator returns a subsequence of its input in the input's order:
  a record survives exactly when it is not a duplicate, under the active policy, of a
  survivor before it.  For an input \<open>[A, B, A']\<close> where \<open>A'\<close> duplicates \<open>A\<close> and
  \<open>B\<close> does not duplicate \<open>A\<close>, the output is exactly \<open>[A, B]\<close>.
\<close>

theorem dedup_first_occurrence:
  "dedup dup [] = []
   \<and> dedup dup (xs @ [x]) =
       (if list_ex (\<lambda>existing. dup existing x) (dedup dup xs)
        then dedup dup xs else dedup dup xs @ [x])
   \<and> subseq (dedup dup xs) xs
   \<and> (dup A A' \<and> \<not> dup A B \<longrightarrow> dedup dup [A, B, A'] = [A, B])"
  by (simp add: dedup_subseq) (simp add: dedup_def dedupLoop_snoc)

theorem dedup_first_occurrence_witness:
  "exactDuplicate dalMakhani dalMakhaniUpper \<and> \<not> exactDuplicate dalMakhani jeeraRice
   \<and> dedup exactDuplicate [dalMakhani, jeeraRice, dalMakhaniUpper] = [dalMakhani, jeeraRice]
   \<and> isDuplicate spiceGarden spiceGardenCut \<and> \<not> isDuplicate spiceGarden tandoorHouse
   \<and> dedup isDuplicate [spiceGarden, tandoorHouse, spiceGardenCut] = [spiceGarden, tandoorHouse]"
proof -
  have a: "exactDuplicate dalMakhani dalMakhaniUpper \<and> \<not> exactDuplicate dalMakhani jeeraRice"
    by (simp add: exactDuplicate_def dalMakhani_def dalMakhaniUpper_def jeeraRice_def
        toLowerCase_ascii lowerAscii_def js_def)
  have b: "isDuplicate spiceGarden spiceGardenCut \<and> \<not> isDuplicate spiceGarden tandoorHouse"
    by (simp add: isDuplicate_def spiceGarden_def spiceGardenCut_def tandoorHouse_def
        toLowerCase_ascii lowerAscii_def js_def)
  show ?thesis
    using a b
      dedup_first_occurrence [of exactDuplicate "[]" dalMakhani dalMakhani dalMakhaniUpper jeeraRice]
      dedup_first_occurrence [of isDuplicate "[]" spiceGarden spiceGarden spiceGardenCut tandoorHouse]
    by blast
qed

text \<open>The exact test takes two spellings of a name beyond ASCII for one dish as well.\<close>

lemma exactDuplicate_beyond_ascii:
  "exactDuplicate (dalMakhani\<lparr>name := [67, 65, 70, 201]\<rparr>)
     (dalMakhani\<lparr>name := [99, 97, 102, 233]\<rparr>)"
  by (simp add: exactDuplicate_def toLowerCase_beyond_ascii(1,2) dalMakhani_def)

section \<open>Properties of the matcher\<close>

lemma concat_matcher_Empty: "concat (map (matcher ic Empty) xs) = xs"
  by (induction xs) simp_all

lemma matcher_seqs_Cons:
  "matcher ic (seqs (r # rs)) s = concat (map (matcher ic (seqs rs)) (matcher ic r s))"
  by (cases rs) (simp_all add: concat_matcher_Empty)

lemma matcher_lit:
  "matcher ic (lit w) s =
     (if startsWith (map (canonicalize ic) (rest s)) (map (canonicalize ic) w)
      then [s\<lparr>endIndex := endIndex s + length w, rest := drop (length w) (rest s)\<rparr>]
      else [])"
  unfolding lit_def
proof (induction w arbitrary: s)
  case Nil
  then show ?case by simp
next
  case (Cons c w)
  show ?case
  proof (cases "rest s")
    case Nil
    then show ?thesis by (simp add: matcher_seqs_Cons oneChar_def)
  next
    case (Cons x xs)
    then show ?thesis
      by (simp add: matcher_seqs_Cons oneChar_def Cons.IH)
  qed
qed

lemma matcher_alts:
  "matcher ic (alts rs) s = concat (map (\<lambda>r. matcher ic r s) rs)"
  by (induction rs rule: alts.induct) (simp_all add: oneChar_def inClass_def split: list.split)

lemma execFrom_None:
  "(execFrom ic r i cs = None) =
     (\<forall>k \<le> length cs. matcher ic r \<lparr>endIndex = i + k, rest = drop k cs, captures = []\<rparr> = [])"
proof (induction cs arbitrary: i)
  case Nil
  then show ?case by (simp split: list.split)
next
  case (Cons c cs)
  have "(\<forall>k \<le> length (c # cs). matcher ic r \<lparr>endIndex = i + k, rest = drop k (c # cs), captures = []\<rparr> = [])
        = (matcher ic r \<lparr>endIndex = i, rest = c # cs, captures = []\<rparr> = []
           \<and> (\<forall>k \<le> length cs. matcher ic r \<lparr>endIndex = Suc i + k, rest = drop k cs, captures = []\<rparr> = []))"
    (is "?L = (?A \<and> ?B)")
  proof
    assume l: ?L
    have ?A using l [rule_format, of 0] by simp
    moreover have ?B
    proof (intro allI impI)
      fix k assume "k \<le> length cs"
      then show "matcher ic r \<lparr>endIndex = Suc i + k, rest = drop k cs, captures = []\<rparr> = []"
        using l [rule_format, of "Suc k"] by simp
    qed
    ultimately show "?A \<and> ?B" by blast
  next
    assume ab: "?A \<and> ?B"
    show ?L
    proof (intro allI impI)
      fix k assume "k \<le> length (c # cs)"
      then show "matcher ic r \<lparr>endIndex = i + k, rest = drop k (c # cs), captures = []\<rparr> = []"
        using ab by (cases k) auto
    qed
  qed
  then show ?case by (simp add: Cons.IH split: list.split)
qed

lemma test_alts: "test ic (alts rs) text = list_ex (\<lambda>r. test ic r text) rs"
  by (auto simp: test_def exec_def execFrom_None matcher_alts list_ex_iff)

lemma startsWith_prefix: "startsWith xs w = (\<exists>b. xs = w @ b)"
  by (induction xs w rule: startsWith.induct) auto

lemma includesStr_append: "includesStr xs w = (\<exists>a b. xs = a @ w @ b)"
proof (induction xs)
  case Nil
  then show ?case by auto
next
  case (Cons x xs)
  have "(\<exists>a b. x # xs = a @ w @ b) = ((\<exists>b. x # xs = w @ b) \<or> (\<exists>a b. xs = a @ w @ b))"
  proof
    assume "\<exists>a b. x # xs = a @ w @ b"
    then obtain a b where ab: "x # xs = a @ w @ b" by blast
    show "(\<exists>b. x # xs = w @ b) \<or> (\<exists>a b. xs = a @ w @ b)"
    proof (cases a)
      case Nil
      with ab show ?thesis by auto
    next
      case (Cons y a')
      with ab have "xs = a' @ w @ b" by simp
      then show ?thesis by blast
    qed
  next
    assume "(\<exists>b. x # xs = w @ b) \<or> (\<exists>a b. xs = a @ w @ b)"
    then show "\<exists>a b. x # xs = a @ w @ b"
    proof
      assume "\<exists>b. x # xs = w @ b"
      then obtain b where "x # xs = [] @ w @ b" by auto
      then show ?thesis by blast
    next
      assume "\<exists>a b. xs = a @ w @ b"
      then obtain a b where "x # xs = (x # a) @ w @ b" by auto
      then show ?thesis by blast
    qed
  qed
  then show ?case by (simp add: Cons.IH startsWith_prefix)
qed

lemma includesStr_drop:
  "includesStr xs w = (\<exists>k \<le> length xs. startsWith (drop k xs) w)"
proof
  assume "includesStr xs w"
  then obtain a b where "xs = a @ w @ b" by (auto simp: includesStr_append)
  then have "length a \<le> length xs \<and> startsWith (drop (length a) xs) w"
    by (simp add: startsWith_prefix)
  then show "\<exists>k \<le> length xs. startsWith (drop k xs) w" by blast
next
  assume "\<exists>k \<le> length xs. startsWith (drop k xs) w"
  then obtain k b where "drop k xs = w @ b" by (auto simp: startsWith_prefix)
  then have "xs = take k xs @ w @ b" by (metis append_take_drop_id)
  then show "includesStr xs w" by (auto simp: includesStr_append)
qed

lemma test_lit: "test ic (lit w) text = includesCI ic text w"
  by (auto simp: test_def exec_def execFrom_None matcher_lit includesCI_def includesStr_drop drop_map)

lemma test_kw:
  "test ic (kw ws) text =
     hasAny (map (canonicalize ic) text) (map (\<lambda>w. map (canonicalize ic) (js w)) ws)"
  by (simp add: kw_def test_alts list_ex_iff test_lit hasAny_def includesCI_def)

lemma test_lit_hasAny:
  "test ic (lit w) text = hasAny (map (canonicalize ic) text) [map (canonicalize ic) w]"
  by (simp add: test_lit hasAny_def includesCI_def)

lemma test_Alt: "test ic (Alt a b) text = (test ic a text \<or> test ic b text)"
  by (auto simp: test_def exec_def execFrom_None)

lemma test_Seq_lit_absent:
  "\<not> includesCI ic text w \<Longrightarrow> test ic (Seq (lit w) r) text = False"
  by (simp add: test_def exec_def execFrom_None matcher_lit includesCI_def
      includesStr_drop drop_map)

lemma test_kw_iff:
  "test ic (kw ws) text = (\<exists>w \<in> set ws. includesCI ic text (js w))"
  by (simp add: kw_def test_alts list_ex_iff test_lit)


text \<open>
  Evaluating a keyword test on a given text: the first set of facts turns the test into a
  search of number lists, the second runs the search.
\<close>

lemma hasAny_Nil: "hasAny text [] = False"
  by (simp add: hasAny_def)

lemma hasAny_Cons: "hasAny text (w # ws) = (if includesStr text w then True else hasAny text ws)"
  by (simp add: hasAny_def)

lemma includesStr_Cons_if:
  "includesStr (h # hs) (n # ns) =
     (if h = n then (if startsWith hs ns then True else includesStr hs (n # ns))
      else includesStr hs (n # ns))"
  by simp

lemma includesStr_Nil_Cons: "includesStr [] (n # ns) = False"
  by simp

lemma startsWith_Cons_if:
  "startsWith (h # hs) (n # ns) = (if h = n then startsWith hs ns else False)"
  by simp

lemmas fixture_text =
  js_def toLowerCase_ascii lowerAscii_def canonicalize_def rupee_def backslash_def

lemmas to_search = test_kw test_Alt test_lit_hasAny fixture_text

lemmas search =
  hasAny_Nil hasAny_Cons includesStr_Cons_if includesStr_Nil_Cons startsWith_Cons_if
  startsWith.simps(1,2) if_True if_False numeral_eq_iff num.inject num.distinct simp_thms

section \<open>The category extractor\<close>

lemma gulabJamun_not_starter: "\<not> test True starterWords (toLowerCase biryaniGulabJamun)"
  apply (simp add: starterWords_def biryaniGulabJamun_def to_search)
  apply (simp only: search cong: if_weak_cong)
  done

lemma gulabJamun_dessert: "test True dessertWords (toLowerCase biryaniGulabJamun)"
  apply (simp add: dessertWords_def biryaniGulabJamun_def to_search)
  apply (simp only: search cong: if_weak_cong)
  done


lemma gulabJamun_not_starterAll: "\<not> test True starterWordsAll (toLowerCase biryaniGulabJamun)"
  apply (simp add: starterWordsAll_def biryaniGulabJamun_def to_search)
  apply (simp only: search cong: if_weak_cong)
  done

lemma gulabJamun_dessertAll: "test True dessertWordsAll (toLowerCase biryaniGulabJamun)"
  apply (simp add: dessertWordsAll_def biryaniGulabJamun_def to_search)
  apply (simp only: search cong: if_weak_cong)
  done

text \<open>
  C2.  In both menu scrapers the category is the label of the first row, in the order
  starter, dessert, rice, bread, curry, beverage, pizza, burger, pasta, snack, whose
  keywords match the lowered text, and \<open>main\<close> when no row matches.  \<open>Chicken Biryani
  with Gulab Jamun\<close> is a dessert: the dessert row stands before the rice row.
\<close>

theorem category_first_row:
  "categoryOf lowerText = firstMatchWins categoryTable (js ''main'') lowerText
   \<and> categoryOfAll lowerText = firstMatchWins categoryTableAll (js ''main'') lowerText
   \<and> map snd categoryTable =
       map js [''starter'', ''dessert'', ''rice'', ''bread'', ''curry'', ''beverage'', ''pizza'',
               ''burger'', ''pasta'', ''snack'']
   \<and> map snd categoryTableAll = map snd categoryTable
   \<and> categoryOf (toLowerCase biryaniGulabJamun) = js ''dessert''
   \<and> categoryOfAll (toLowerCase biryaniGulabJamun) = js ''dessert''"
proof (intro conjI)
  show "categoryOf lowerText = firstMatchWins categoryTable (js ''main'') lowerText"
    by (simp add: categoryOf_def categoryTable_def)
  show "categoryOfAll lowerText = firstMatchWins categoryTableAll (js ''main'') lowerText"
    by (simp add: categoryOfAll_def categoryTableAll_def)
  show "map snd categoryTable =
       map js [''starter'', ''dessert'', ''rice'', ''bread'', ''curry'', ''beverage'', ''pizza'',
               ''burger'', ''pasta'', ''snack'']"
    by (simp add: categoryTable_def)
  show "map snd categoryTableAll = map snd categoryTable"
    by (simp add: categoryTable_def categoryTableAll_def)
  show "categoryOf (toLowerCase biryaniGulabJamun) = js ''dessert''"
    by (simp add: categoryOf_def gulabJamun_not_starter gulabJamun_dessert)
  show "categoryOfAll (toLowerCase biryaniGulabJamun) = js ''dessert''"
    by (simp add: categoryOfAll_def gulabJamun_not_starterAll gulabJamun_dessertAll)
qed

lemma gulabJamun_rice: "test True riceWords (toLowerCase biryaniGulabJamun)"
  apply (simp add: riceWords_def biryaniGulabJamun_def to_search)
  apply (simp only: search cong: if_weak_cong)
  done

theorem category_first_row_witness:
  "test True dessertWords (toLowerCase biryaniGulabJamun)
   \<and> test True riceWords (toLowerCase biryaniGulabJamun)
   \<and> firstMatchWins categoryTable (js ''main'') (toLowerCase biryaniGulabJamun) = js ''dessert''"
  using category_first_row [of "toLowerCase biryaniGulabJamun"] gulabJamun_dessert gulabJamun_rice
  by metis

section \<open>The spice-level extractor\<close>

lemma includes_lowered:
  assumes "includesStr text w" and "w \<noteq> []" and "list_all (\<lambda>c. c < 128) w"
  shows "includesCI ic (toLowerCase text) (map lowerAscii w)"
proof -
  from assms(1) obtain a b where "text = a @ w @ b" by (auto simp: includesStr_append)
  with toLowerCase_around [OF assms(2,3), of a b] obtain u v
    where "toLowerCase text = u @ map lowerAscii w @ v" by blast
  then have "map (canonicalize ic) (toLowerCase text) =
      map (canonicalize ic) u @ map (canonicalize ic) (map lowerAscii w)
      @ map (canonicalize ic) v"
    by simp
  then show ?thesis unfolding includesCI_def includesStr_append by blast
qed


lemma includesCI_part:
  "includesCI ic text (a @ w @ b) \<Longrightarrow> includesCI ic text w"
proof -
  assume "includesCI ic text (a @ w @ b)"
  then obtain p q where "map (canonicalize ic) text =
      p @ (map (canonicalize ic) a @ map (canonicalize ic) w @ map (canonicalize ic) b) @ q"
    by (auto simp: includesCI_def includesStr_append)
  then have "map (canonicalize ic) text =
      (p @ map (canonicalize ic) a) @ map (canonicalize ic) w @ (map (canonicalize ic) b @ q)"
    by simp
  then show ?thesis unfolding includesCI_def includesStr_append by blast
qed



lemma spicy_found:
  assumes "includesCI True lowerText (js ''extremely spicy'')
           \<or> includesCI True lowerText (js ''super hot'')
           \<or> includesCI True lowerText (js ''devil hot'')"
  shows "test True spicyWords lowerText"
proof -
  have a: "js ''extremely spicy'' = js ''extremely '' @ js ''spicy'' @ []"
    and b: "js ''super hot'' = js ''super '' @ js ''hot'' @ []"
    and c: "js ''devil hot'' = js ''devil '' @ js ''hot'' @ []"
    by (simp_all add: js_def)
  from assms have "includesCI True lowerText (js ''spicy'') \<or> includesCI True lowerText (js ''hot'')"
    using includesCI_part [of True lowerText "js ''extremely ''" "js ''spicy''" "[]"]
      includesCI_part [of True lowerText "js ''super ''" "js ''hot''" "[]"]
      includesCI_part [of True lowerText "js ''devil ''" "js ''hot''" "[]"]
    by (auto simp only: a b c)
  then show ?thesis by (auto simp: spicyWords_def test_kw_iff)
qed

lemma spice_labels_differ:
  "js ''mild'' \<noteq> js ''extra-spicy''" "js ''medium'' \<noteq> js ''extra-spicy''"
  "js ''spicy'' \<noteq> js ''extra-spicy''"
  by (simp_all add: js_def)

lemma ghostPepper_tests:
  "\<not> test True mildWords (toLowerCase ghostPepperWings)"
  "\<not> test True mediumWords (toLowerCase ghostPepperWings)"
  "\<not> test True spicyWords (toLowerCase ghostPepperWings)"
  "test True extraSpicyWords (toLowerCase ghostPepperWings)"
     apply (simp_all add: mildWords_def mediumWords_def spicyWords_def extraSpicyWords_def
      ghostPepperWings_def to_search)
     apply (simp_all only: search cong: if_weak_cong)
  done





lemma mildExtremelySpicy_mild: "test True mildWords (toLowerCase mildExtremelySpicy)"
  apply (simp add: mildWords_def mildExtremelySpicy_def to_search)
  apply (simp only: search cong: if_weak_cong)
  done

text \<open>
  C10 as stated fails: a text with \<open>extremely spicy\<close> in it is labelled by the first
  check that matches, and that may be the mild one.
\<close>

theorem spice_extremely_counterexample:
  "includesStr mildExtremelySpicy (js ''extremely spicy'')
   \<and> spiceLevelOf (toLowerCase mildExtremelySpicy) \<noteq> Some (js ''spicy'')"
proof -
  have "includesStr mildExtremelySpicy (js ''extremely spicy'')"
    by (simp add: mildExtremelySpicy_def js_def)
  moreover have "js ''mild'' \<noteq> js ''spicy''" by (simp add: js_def)
  ultimately show ?thesis by (simp add: spiceLevelOf_def mildExtremelySpicy_mild)
qed

text \<open>
  C10, amended.  The label is extra-spicy only for texts that hold \<open>ghost pepper\<close> and
  match none of the mild, medium and spicy patterns.  A text that holds \<open>extremely
  spicy\<close>, \<open>super hot\<close> or \<open>devil hot\<close> matches the spicy pattern, so it is labelled
  mild, medium or spicy (spicy when neither the mild nor the medium pattern matches),
  never extra-spicy.
\<close>

theorem spice_extra_needs_ghost_pepper:
  "(spiceLevelOf lowerText = Some (js ''extra-spicy'')
      \<longrightarrow> includesCI True lowerText (js ''ghost pepper'')
          \<and> \<not> test True mildWords lowerText \<and> \<not> test True mediumWords lowerText
          \<and> \<not> test True spicyWords lowerText)
   \<and> (includesCI True lowerText (js ''extremely spicy'')
        \<or> includesCI True lowerText (js ''super hot'')
        \<or> includesCI True lowerText (js ''devil hot'')
      \<longrightarrow> test True spicyWords lowerText
          \<and> spiceLevelOf lowerText \<noteq> Some (js ''extra-spicy'')
          \<and> spiceLevelOf lowerText =
              (if test True mildWords lowerText then Some (js ''mild'')
               else if test True mediumWords lowerText then Some (js ''medium'')
               else Some (js ''spicy'')))"
proof (intro conjI impI)
  assume extra: "spiceLevelOf lowerText = Some (js ''extra-spicy'')"
  then have no: "\<not> test True mildWords lowerText" "\<not> test True mediumWords lowerText"
      "\<not> test True spicyWords lowerText"
    and yes: "test True extraSpicyWords lowerText"
    using spice_labels_differ by (auto simp: spiceLevelOf_def split: if_splits)
  from no show "\<not> test True mildWords lowerText" "\<not> test True mediumWords lowerText"
      "\<not> test True spicyWords lowerText" by blast+
  from yes have "includesCI True lowerText (js ''extremely spicy'')
      \<or> includesCI True lowerText (js ''super hot'')
      \<or> includesCI True lowerText (js ''devil hot'')
      \<or> includesCI True lowerText (js ''ghost pepper'')"
    by (auto simp: extraSpicyWords_def test_kw_iff)
  with no(3) spicy_found [of lowerText]
  show "includesCI True lowerText (js ''ghost pepper'')" by blast
next
  assume hot: "includesCI True lowerText (js ''extremely spicy'')
      \<or> includesCI True lowerText (js ''super hot'')
      \<or> includesCI True lowerText (js ''devil hot'')"
  then have spicy: "test True spicyWords lowerText" by (rule spicy_found)
  then show "test True spicyWords lowerText" .
  from spicy show "spiceLevelOf lowerText \<noteq> Some (js ''extra-spicy'')"
    using spice_labels_differ by (simp add: spiceLevelOf_def)
  from spicy show "spiceLevelOf lowerText =
              (if test True mildWords lowerText then Some (js ''mild'')
               else if test True mediumWords lowerText then Some (js ''medium'')
               else Some (js ''spicy''))"
    by (simp add: spiceLevelOf_def)
qed

theorem spice_extra_needs_ghost_pepper_witness:
  "spiceLevelOf (toLowerCase ghostPepperWings) = Some (js ''extra-spicy'')
   \<and> includesCI True (toLowerCase ghostPepperWings) (js ''ghost pepper'')
   \<and> includesCI True (toLowerCase mildExtremelySpicy) (js ''extremely spicy'')
   \<and> test True spicyWords (toLowerCase mildExtremelySpicy)
   \<and> spiceLevelOf (toLowerCase mildExtremelySpicy) = Some (js ''mild'')"
proof -
  have a: "spiceLevelOf (toLowerCase ghostPepperWings) = Some (js ''extra-spicy'')"
    by (simp add: spiceLevelOf_def ghostPepper_tests)
  have "includesStr mildExtremelySpicy (js ''extremely spicy'')"
    "js ''extremely spicy'' \<noteq> []" "list_all (\<lambda>c. c < 128) (js ''extremely spicy'')"
    "map lowerAscii (js ''extremely spicy'') = js ''extremely spicy''"
    by (simp_all add: mildExtremelySpicy_def js_def lowerAscii_def)
  with includes_lowered [of mildExtremelySpicy "js ''extremely spicy''" True]
  have b: "includesCI True (toLowerCase mildExtremelySpicy) (js ''extremely spicy'')"
    by simp
  from a spice_extra_needs_ghost_pepper [of "toLowerCase ghostPepperWings"]
  have c: "includesCI True (toLowerCase ghostPepperWings) (js ''ghost pepper'')"
    by blast
  from b spice_extra_needs_ghost_pepper [of "toLowerCase mildExtremelySpicy"]
  have d: "test True spicyWords (toLowerCase mildExtremelySpicy)
      \<and> spiceLevelOf (toLowerCase mildExtremelySpicy) =
          (if test True mildWords (toLowerCase mildExtremelySpicy) then Some (js ''mild'')
           else if test True mediumWords (toLowerCase mildExtremelySpicy)
                then Some (js ''medium'') else Some (js ''spicy''))"
    by blast
  then have e: "spiceLevelOf (toLowerCase mildExtremelySpicy) = Some (js ''mild'')"
    by (simp only: mildExtremelySpicy_mild if_True)
  from a b c d e show ?thesis by blast
qed

section \<open>The price extractor\<close>

lemma startsWith_set: "startsWith xs w \<Longrightarrow> set w \<subseteq> set xs"
  by (auto simp: startsWith_prefix)

lemma lit_needs_backslash:
  assumes "92 \<in> set w" and "92 \<notin> set (rest s)"
  shows "matcher ic (lit w) s = []"
proof -
  have "\<not> startsWith (map (canonicalize ic) (rest s)) (map (canonicalize ic) w)"
  proof
    assume "startsWith (map (canonicalize ic) (rest s)) (map (canonicalize ic) w)"
    then have "set (map (canonicalize ic) w) \<subseteq> set (map (canonicalize ic) (rest s))"
      by (rule startsWith_set)
    moreover from assms(1) have "canonicalize ic 92 \<in> set (map (canonicalize ic) w)"
      by simp
    ultimately have "canonicalize ic 92 \<in> canonicalize ic ` set (rest s)" by auto
    then obtain x where "x \<in> set (rest s)" "canonicalize ic x = canonicalize ic 92" by auto
    then have "92 \<in> set (rest s)" by (simp add: canonicalize_def split: if_splits)
    with assms(2) show False by simp
  qed
  then show ?thesis by (simp add: matcher_lit)
qed

lemma pricePattern_needs_backslash:
  assumes "pattern \<in> set pricePatterns \<union> set pricePatternsAll" and "92 \<notin> set (rest s)"
  shows "matcher True pattern s = []"
  using assms(1)
  by (auto simp: pricePatterns_def pricePatternsAll_def amountGroup_def backslash_def rupee_def
      lit_needs_backslash [OF _ assms(2)])

lemma pricePattern_no_match:
  assumes "pattern \<in> set pricePatterns \<union> set pricePatternsAll" and "92 \<notin> set text"
  shows "exec True pattern text = None"
proof -
  have "matcher True pattern \<lparr>endIndex = 0 + k, rest = drop k text, captures = []\<rparr> = []" for k
  proof (rule pricePattern_needs_backslash [OF assms(1)])
    from assms(2) show "92 \<notin> set (rest \<lparr>endIndex = 0 + k, rest = drop k text, captures = []\<rparr>)"
      by (auto dest: in_set_dropD)
  qed
  then show ?thesis by (simp add: exec_def execFrom_None)
qed

lemma priceLoop_no_match:
  "(\<And>pattern. pattern \<in> set patterns \<Longrightarrow> exec True pattern text = None)
   \<Longrightarrow> priceLoop patterns text = None"
  by (induction patterns) simp_all

lemma price_needs_backslash: "92 \<notin> set text \<Longrightarrow> priceOf text = None"
  unfolding priceOf_def by (rule priceLoop_no_match) (simp add: pricePattern_no_match)

lemma priceAll_needs_backslash: "92 \<notin> set text \<Longrightarrow> priceOfAll text = None"
  unfolding priceOfAll_def by (rule priceLoop_no_match) (simp add: pricePattern_no_match)

text \<open>
  The loop is first match wins: the price is read from group 1 of the first pattern of
  the list that matches, and stays absent when none does.
\<close>

lemma priceLoop_first_match:
  "priceLoop patterns text =
     (case List.find (\<lambda>pattern. exec True pattern text \<noteq> None) patterns of
        None \<Rightarrow> None
      | Some pattern \<Rightarrow> Some (parseFloat (grp (the (exec True pattern text)) 1)))"
  by (induction patterns) (auto split: option.splits)

text \<open>
  What the first pattern does match: the rupee sign, a backslash, then a backslash and
  the letter \<open>d\<close> as group 1, which \<open>parseFloat\<close> reads as NaN.
\<close>

lemma price_of_backslash_text: "priceOf (rupee @ backslash @ backslash @ js ''dd'') = Some NaN"
  by (simp add: priceOf_def pricePatterns_def amountGroup_def exec_def grp_def parseFloat_def
      signed_def digit_def whiteSpace_def js_def backslash_def rupee_def lit_def oneChar_def
      canonicalize_def lineTerminator_def)

text \<open>
  C1.  On \<open>Butter Chicken\<close>, rupee sign, \<open>299 (was Rs.350)\<close> the price loop of either
  menu scraper finds no match and the price stays absent: every pattern asks for a
  backslash in the text.
\<close>

theorem price_butterChicken_absent:
  "priceOf butterChicken = None \<and> priceOfAll butterChicken = None"
proof -
  have "92 \<notin> set butterChicken"
    by (simp add: butterChicken_def js_def rupee_def)
  then show ?thesis by (simp add: price_needs_backslash priceAll_needs_backslash)
qed

section \<open>The candidate filter\<close>

lemmas to_text = elementText_def trim_def whiteSpace_def js_def rupee_def

lemma orderBiryani_text: "elementText (Some orderBiryani) = orderBiryani"
  by (simp add: orderBiryani_def to_text)

lemma orderBiryani_excluded: "test True excludeKeywords orderBiryani"
  apply (simp add: excludeKeywords_def orderBiryani_def to_search)
  apply (simp only: search cong: if_weak_cong)
  done

lemma orderBiryani_food: "test True foodKeywords orderBiryani"
  apply (simp add: foodKeywords_def orderBiryani_def to_search)
  apply (simp only: search cong: if_weak_cong)
  done

lemma cafeLogin_text: "elementText (Some cafeLogin) = cafeLogin"
  by (simp add: cafeLogin_def to_text)

lemma cafeLogin_restaurant: "test True restaurantKeywords cafeLogin"
  apply (simp add: restaurantKeywords_def cafeLogin_def to_search)
  apply (simp only: search cong: if_weak_cong)
  done

lemma cafeLogin_invalid: "test True invalidRestaurant cafeLogin"
  apply (simp add: invalidRestaurant_def cafeLogin_def to_search)
  apply (simp only: search cong: if_weak_cong)
  done

text \<open>
  C3.  A fragment whose text matches an exclusion keyword gives no record, whatever
  positive keywords it holds, in the menu scraper and in the restaurant scraper alike.
  \<open>Order Biryani Now - Login to continue\<close> holds the food keyword \<open>biryani\<close> and is
  rejected.
\<close>

theorem exclusion_wins:
  "(test True excludeKeywords (elementText innerText) \<longrightarrow> menuItemOf innerText = None)
   \<and> (test True invalidRestaurant (elementText innerText) \<longrightarrow> restaurantOf innerText = None)
   \<and> test True foodKeywords orderBiryani
   \<and> menuItemOf (Some orderBiryani) = None"
  by (simp add: menuItemOf_def restaurantOf_def restaurantCandidate_def isValidRestaurant_def
      Let_def orderBiryani_text orderBiryani_excluded orderBiryani_food)

theorem exclusion_wins_witness:
  "test True excludeKeywords (elementText (Some orderBiryani))
   \<and> menuItemOf (Some orderBiryani) = None
   \<and> test True restaurantKeywords (elementText (Some cafeLogin))
   \<and> test True invalidRestaurant (elementText (Some cafeLogin))
   \<and> restaurantOf (Some cafeLogin) = None"
  using exclusion_wins [of "Some orderBiryani"] exclusion_wins [of "Some cafeLogin"]
    orderBiryani_excluded cafeLogin_invalid cafeLogin_restaurant
  by (simp add: orderBiryani_text cafeLogin_text)

section \<open>The availability extractor\<close>

lemma seasonalLassi_text: "elementText (Some seasonalLassi) = seasonalLassi"
  by (simp add: seasonalLassi_def to_text)

lemma seasonalLassi_food: "test True foodKeywords seasonalLassi"
  apply (simp add: foodKeywords_def seasonalLassi_def to_search)
  apply (simp only: search cong: if_weak_cong)
  done

lemma seasonalLassi_not_excluded: "\<not> test True excludeKeywords seasonalLassi"
  apply (simp add: excludeKeywords_def seasonalLassi_def to_search)
  apply (simp only: search cong: if_weak_cong)
  done

lemma seasonalLassi_unavailable: "test True unavailableWords (toLowerCase seasonalLassi)"
  apply (simp add: unavailableWords_def seasonalLassi_def to_search)
  apply (simp only: search cong: if_weak_cong)
  done

lemmas to_name =
  cleanName_def firstLine_def linesOf_def trim_def whiteSpace_def replaceAll_def nameJunk_def
  nameSpaces_def js_def backslash_def oneChar_def inClass_def caseVariants_def canonicalize_def
  lit_def

lemma seasonalLassi_name: "cleanName (firstLine (linesOf seasonalLassi) seasonalLassi) = seasonalLassi"
  by (simp add: seasonalLassi_def to_name)


lemma seasonalLassi_length: "length seasonalLassi = 22"
  by (simp add: seasonalLassi_def js_def)

lemma includesCI_hasAny:
  "includesCI ic text w = hasAny (map (canonicalize ic) text) [map (canonicalize ic) w]"
  by (simp add: hasAny_def includesCI_def)

lemma seasonalLassi_item: "map_option is_available (menuItemOf (Some seasonalLassi)) = Some False"
  by (simp add: menuItemOf_def Let_def seasonalLassi_text seasonalLassi_length seasonalLassi_food
      seasonalLassi_not_excluded seasonalLassi_name isAvailableOf_def seasonalLassi_unavailable)

lemma fishNotAvailable_text: "elementText (Some fishNotAvailable) = fishNotAvailable"
  by (simp add: fishNotAvailable_def to_text)

lemma fishNotAvailable_length: "length fishNotAvailable = 26"
  by (simp add: fishNotAvailable_def js_def)

lemma fishNotAvailable_food: "test True foodKeywordsAll fishNotAvailable"
  apply (simp add: foodKeywordsAll_def fishNotAvailable_def to_search)
  apply (simp only: search cong: if_weak_cong)
  done

lemma fishNotAvailable_not_navigation: "\<not> test True navigationKeywords fishNotAvailable"
  apply (simp add: navigationKeywords_def fishNotAvailable_def to_search)
  apply (simp only: search cong: if_weak_cong)
  done

lemma fishNotAvailable_name: "firstLineAll (linesOf fishNotAvailable) fishNotAvailable = fishNotAvailable"
  by (simp add: fishNotAvailable_def firstLineAll_def linesOf_def trim_def whiteSpace_def js_def)

lemma fishNotAvailable_unavailable: "test True unavailableWordsAll (toLowerCase fishNotAvailable)"
  apply (simp add: unavailableWordsAll_def fishNotAvailable_def to_search)
  apply (simp only: search cong: if_weak_cong)
  done

lemma fishNotAvailable_item:
  "map_option is_available (menuItemOfAll (Some fishNotAvailable)) = Some False"
  by (simp add: menuItemOfAll_def Let_def fishNotAvailable_text fishNotAvailable_length
      fishNotAvailable_food fishNotAvailable_not_navigation fishNotAvailable_name
      isAvailableOfAll_def fishNotAvailable_unavailable)

lemma seasonalLassi_foodAll: "test True foodKeywordsAll seasonalLassi"
  apply (simp add: foodKeywordsAll_def seasonalLassi_def to_search)
  apply (simp only: search cong: if_weak_cong)
  done

lemma seasonalLassi_not_navigation: "\<not> test True navigationKeywords seasonalLassi"
  apply (simp add: navigationKeywords_def seasonalLassi_def to_search)
  apply (simp only: search cong: if_weak_cong)
  done

lemma seasonalLassi_nameAll: "firstLineAll (linesOf seasonalLassi) seasonalLassi = seasonalLassi"
  by (simp add: seasonalLassi_def firstLineAll_def linesOf_def trim_def whiteSpace_def js_def)

lemma seasonalLassi_availableAll: "\<not> test True unavailableWordsAll (toLowerCase seasonalLassi)"
  apply (simp add: unavailableWordsAll_def seasonalLassi_def to_search)
  apply (simp only: search cong: if_weak_cong)
  done

lemma seasonalLassi_itemAll:
  "map_option is_available (menuItemOfAll (Some seasonalLassi)) = Some True"
  by (simp add: menuItemOfAll_def Let_def seasonalLassi_text seasonalLassi_length
      seasonalLassi_foodAll seasonalLassi_not_navigation seasonalLassi_nameAll
      isAvailableOfAll_def seasonalLassi_availableAll)

text \<open>
  C5 as stated fails in both menu scrapers.  In \<open>extractCompleteRealMenu\<close> the menu item
  \<open>Mango Lassi - seasonal\<close> holds none of the five phrases and is marked unavailable;
  in \<open>extractAllMenuItems\<close> so is \<open>Fish curry - not available\<close>.
\<close>

theorem availability_seasonal_counterexample:
  "map_option is_available (menuItemOf (Some seasonalLassi)) = Some False
   \<and> \<not> list_ex (\<lambda>phrase. includesCI True seasonalLassi (js phrase))
         [''out of stock'', ''sold out'', ''unavailable'', ''temporarily unavailable'',
          ''coming soon'']
   \<and> map_option is_available (menuItemOfAll (Some fishNotAvailable)) = Some False
   \<and> \<not> list_ex (\<lambda>phrase. includesCI True fishNotAvailable (js phrase))
         [''out of stock'', ''sold out'', ''unavailable'', ''temporarily unavailable'',
          ''coming soon'']"
  apply (simp add: seasonalLassi_item fishNotAvailable_item)
  apply (simp add: includesCI_hasAny seasonalLassi_def fishNotAvailable_def fixture_text)
  apply (simp only: search cong: if_weak_cong)
  done

text \<open>
  C5, amended.  The availability is true by default.  In \<open>extractCompleteRealMenu\<close> it
  is false exactly when the lowered text holds, letter case apart, one of the phrases
  \<open>out of stock\<close>, \<open>not available\<close>, \<open>unavailable\<close>, \<open>sold out\<close>,
  \<open>temporarily unavailable\<close>, \<open>coming soon\<close>, \<open>seasonal\<close>, \<open>limited time\<close>,
  \<open>weekend only\<close>, \<open>dinner only\<close> or \<open>lunch only\<close>; in \<open>extractAllMenuItems\<close>
  exactly when it holds one of \<open>out of stock\<close>, \<open>not available\<close>, \<open>unavailable\<close>,
  \<open>sold out\<close> or \<open>temporarily unavailable\<close>.
\<close>

theorem availability_phrases:
  "isAvailableOf lowerText =
     (\<not> list_ex (\<lambda>phrase. includesCI True lowerText (js phrase))
          [''out of stock'', ''not available'', ''unavailable'', ''sold out'',
           ''temporarily unavailable'', ''coming soon'', ''seasonal'', ''limited time'',
           ''weekend only'', ''dinner only'', ''lunch only''])
   \<and> isAvailableOfAll lowerText =
     (\<not> list_ex (\<lambda>phrase. includesCI True lowerText (js phrase))
          [''out of stock'', ''not available'', ''unavailable'', ''sold out'',
           ''temporarily unavailable''])"
  unfolding isAvailableOf_def isAvailableOfAll_def unavailableWords_def unavailableWordsAll_def
    test_kw_iff list_ex_iff by blast

lemma paneerTikka_available: "\<not> test True unavailableWords (toLowerCase paneerTikka)"
  apply (simp add: unavailableWords_def paneerTikka_def to_search)
  apply (simp only: search cong: if_weak_cong)
  done

theorem availability_phrases_witness:
  "\<not> isAvailableOf (toLowerCase seasonalLassi)
   \<and> list_ex (\<lambda>phrase. includesCI True (toLowerCase seasonalLassi) (js phrase))
        [''out of stock'', ''not available'', ''unavailable'', ''sold out'',
         ''temporarily unavailable'', ''coming soon'', ''seasonal'', ''limited time'',
         ''weekend only'', ''dinner only'', ''lunch only'']
   \<and> isAvailableOf (toLowerCase paneerTikka)
   \<and> isAvailableOfAll (toLowerCase seasonalLassi)
   \<and> map_option is_available (menuItemOfAll (Some seasonalLassi)) = Some True
   \<and> \<not> isAvailableOfAll (toLowerCase fishNotAvailable)
   \<and> list_ex (\<lambda>phrase. includesCI True (toLowerCase fishNotAvailable) (js phrase))
        [''out of stock'', ''not available'', ''unavailable'', ''sold out'',
         ''temporarily unavailable'']
   \<and> map_option is_available (menuItemOfAll (Some fishNotAvailable)) = Some False"
proof -
  have a: "\<not> isAvailableOf (toLowerCase seasonalLassi)"
    by (simp add: isAvailableOf_def seasonalLassi_unavailable)
  have b: "isAvailableOf (toLowerCase paneerTikka)"
    by (simp add: isAvailableOf_def paneerTikka_available)
  have c: "isAvailableOfAll (toLowerCase seasonalLassi)"
    by (simp add: isAvailableOfAll_def seasonalLassi_availableAll)
  have d: "\<not> isAvailableOfAll (toLowerCase fishNotAvailable)"
    by (simp add: isAvailableOfAll_def fishNotAvailable_unavailable)
  from a availability_phrases [of "toLowerCase seasonalLassi"]
  have e: "list_ex (\<lambda>phrase. includesCI True (toLowerCase seasonalLassi) (js phrase))
        [''out of stock'', ''not available'', ''unavailable'', ''sold out'',
         ''temporarily unavailable'', ''coming soon'', ''seasonal'', ''limited time'',
         ''weekend only'', ''dinner only'', ''lunch only'']"
    by blast
  from d availability_phrases [of "toLowerCase fishNotAvailable"]
  have f: "list_ex (\<lambda>phrase. includesCI True (toLowerCase fishNotAvailable) (js phrase))
        [''out of stock'', ''not available'', ''unavailable'', ''sold out'',
         ''temporarily unavailable'']"
    by blast
  from a b c d e f seasonalLassi_itemAll fishNotAvailable_item show ?thesis by blast
qed

section \<open>The pipeline on the fixtures\<close>

lemma paneerTikka_text: "elementText (Some paneerTikka) = paneerTikka"
  by (simp add: paneerTikka_def to_text)

lemma paneerTikka_length: "length paneerTikka = 38"
  by (simp add: paneerTikka_def js_def)

lemma paneerTikka_food: "test True foodKeywords paneerTikka"
  apply (simp add: foodKeywords_def paneerTikka_def to_search)
  apply (simp only: search cong: if_weak_cong)
  done

lemma paneerTikka_not_excluded: "\<not> test True excludeKeywords paneerTikka"
  apply (simp add: excludeKeywords_def paneerTikka_def to_search)
  apply (simp only: search cong: if_weak_cong)
  done

lemma paneerTikka_name: "cleanName (firstLine (linesOf paneerTikka) paneerTikka) = paneerTikka"
  by (simp add: paneerTikka_def to_name)

lemma paneerTikka_starter: "test True starterWords (toLowerCase paneerTikka)"
  apply (simp add: starterWords_def paneerTikka_def to_search)
  apply (simp only: search cong: if_weak_cong)
  done

lemma paneerTikka_spice:
  "\<not> test True mildWords (toLowerCase paneerTikka)"
  "\<not> test True mediumWords (toLowerCase paneerTikka)"
  "test True spicyWords (toLowerCase paneerTikka)"
    apply (simp_all add: mildWords_def mediumWords_def spicyWords_def paneerTikka_def to_search)
    apply (simp_all only: search cong: if_weak_cong)
  done

lemma paneerTikka_diet:
  "\<not> test True vegWords (toLowerCase paneerTikka)"
  "\<not> test True nonVegWords (toLowerCase paneerTikka)"
  "\<not> test True jainWords (toLowerCase paneerTikka)"
  "\<not> test True veganWords (toLowerCase paneerTikka)"
  "\<not> test True glutenFreeWords (toLowerCase paneerTikka)"
  "\<not> test True dairyFreeWords (toLowerCase paneerTikka)"
  "\<not> test True ketoWords (toLowerCase paneerTikka)"
  "\<not> test True organicWords (toLowerCase paneerTikka)"
         apply (simp_all add: vegWords_def nonVegWords_def jainWords_def veganWords_def
      glutenFreeWords_def dairyFreeWords_def ketoWords_def organicWords_def paneerTikka_def
      to_search test_Seq_lit_absent includesCI_def)
         apply (simp_all only: search cong: if_weak_cong)
  done

lemma paneerTikka_item:
  "map_option (\<lambda>item. (category item, spice_level item, dietary_info item))
     (menuItemOf (Some paneerTikka)) = Some (js ''starter'', Some (js ''spicy''), [])"
  by (simp add: menuItemOf_def Let_def paneerTikka_text paneerTikka_length paneerTikka_food
      paneerTikka_not_excluded paneerTikka_name categoryOf_def paneerTikka_starter
      spiceLevelOf_def paneerTikka_spice dietaryInfoOf_def paneerTikka_diet)

text \<open>
  C9 as stated fails: the record for \<open>Paneer Tikka - Spicy starter, serves 2\<close> carries
  no vegetarian tag.  The tag is given for the words \<open>vegetarian\<close> and \<open>veggie\<close> (and
  a third pattern around \<open>veg\<close>), none of which the text holds.
\<close>

theorem paneerTikka_vegetarian_counterexample:
  "map_option (\<lambda>item. js ''vegetarian'' \<in> set (dietary_info item))
     (menuItemOf (Some paneerTikka)) = Some False"
proof -
  have "map_option (\<lambda>item. js ''vegetarian'' \<in> set (dietary_info item)) (menuItemOf (Some paneerTikka))
      = map_option (\<lambda>(c, s, d). js ''vegetarian'' \<in> set d)
          (map_option (\<lambda>item. (category item, spice_level item, dietary_info item))
             (menuItemOf (Some paneerTikka)))"
    by (simp add: option.map_comp comp_def)
  then show ?thesis by (simp add: paneerTikka_item)
qed

text \<open>
  C9, amended.  Processing \<open>Paneer Tikka - Spicy starter, serves 2\<close> yields a record with
  category \<open>starter\<close>, spice level \<open>spicy\<close> and an empty list of dietary tags.
\<close>

theorem paneerTikka_record:
  "map_option (\<lambda>item. (category item, spice_level item, dietary_info item))
     (menuItemOf (Some paneerTikka)) = Some (js ''starter'', Some (js ''spicy''), [])"
  by (rule paneerTikka_item)

theorem paneerTikka_record_witness:
  "menuItemOf (Some paneerTikka) \<noteq> None
   \<and> map_option category (menuItemOf (Some paneerTikka)) = Some (js ''starter'')"
  using paneerTikka_record by auto

lemma margherita_text: "elementText (Some margherita) = margherita"
  by (simp add: margherita_def to_text)

lemma margherita_length: "length margherita = 58"
  by (simp add: margherita_def js_def)

lemma margherita_food: "test True foodKeywords margherita"
  apply (simp add: foodKeywords_def margherita_def to_search)
  apply (simp only: search cong: if_weak_cong)
  done

lemma margherita_not_excluded: "\<not> test True excludeKeywords margherita"
  apply (simp add: excludeKeywords_def margherita_def to_search)
  apply (simp only: search cong: if_weak_cong)
  done

lemma margherita_lines: "linesOf margherita = [margherita]"
  by (simp add: margherita_def linesOf_def trim_def whiteSpace_def js_def)

lemma margherita_name:
  "cleanName (firstLine [margherita] margherita) =
     js ''Classic Margherita Pizza Fresh mozzarella and basil  12.99''"
  by (simp add: margherita_def to_name)

lemma margherita_name_length:
  "length (js ''Classic Margherita Pizza Fresh mozzarella and basil  12.99'') = 58"
  by (simp add: js_def)

lemma margherita_price: "priceOf margherita = None"
  by (rule price_needs_backslash) (simp add: margherita_def js_def)

lemma margherita_category:
  "\<not> test True starterWords (toLowerCase margherita)"
  "\<not> test True dessertWords (toLowerCase margherita)"
  "\<not> test True riceWords (toLowerCase margherita)"
  "\<not> test True breadWords (toLowerCase margherita)"
  "\<not> test True curryWords (toLowerCase margherita)"
  "test True beverageWords (toLowerCase margherita)"
  "test True pizzaWords (toLowerCase margherita)"
        apply (simp_all add: starterWords_def dessertWords_def riceWords_def breadWords_def
      curryWords_def beverageWords_def pizzaWords_def margherita_def to_search)
        apply (simp_all only: search cong: if_weak_cong)
  done

lemma margherita_item:
  "map_option (\<lambda>item. (name item, description item, price item, category item))
     (menuItemOf (Some margherita)) =
   Some (js ''Classic Margherita Pizza Fresh mozzarella and basil  12.99'', [], None,
         js ''beverage'')"
  by (simp add: menuItemOf_def Let_def margherita_text margherita_length margherita_food
      margherita_not_excluded margherita_lines margherita_name margherita_name_length
      descriptionOf_def margherita_price categoryOf_def margherita_category)

text \<open>
  C8 as stated fails: on the fixture (its line breaks are the code unit 10) the record has
  another name, an empty description, no price and the category \<open>beverage\<close>.
\<close>

theorem margherita_counterexample:
  "map_option (\<lambda>item. (name item, description item, price item, category item))
     (menuItemOf (Some margherita)) \<noteq>
   Some (js ''Classic Margherita Pizza'', js ''Fresh mozzarella and basil'',
         Some (Num (1299 / 100)), js ''pizza'')"
  by (simp add: margherita_item)

text \<open>
  C8, amended.  Processing the fixture yields a record with category \<open>beverage\<close>: the
  keyword \<open>lassi\<close> occurs in \<open>Classic\<close>, and the beverage row stands before the pizza
  row, which matches too.
\<close>

theorem margherita_category_beverage:
  "map_option category (menuItemOf (Some margherita)) = Some (js ''beverage'')
   \<and> includesCI True (toLowerCase margherita) (js ''lassi'')
   \<and> test True pizzaWords (toLowerCase margherita)"
proof -
  have "map_option category (menuItemOf (Some margherita))
      = map_option (\<lambda>(n, d, p, c). c)
          (map_option (\<lambda>item. (name item, description item, price item, category item))
             (menuItemOf (Some margherita)))"
    by (simp add: option.map_comp comp_def)
  then have a: "map_option category (menuItemOf (Some margherita)) = Some (js ''beverage'')"
    by (simp add: margherita_item)
  have b: "includesCI True (toLowerCase margherita) (js ''lassi'')"
    apply (simp add: includesCI_hasAny margherita_def fixture_text)
    apply (simp only: search cong: if_weak_cong)
    done
  from a b margherita_category(7) show ?thesis by blast
qed

theorem margherita_category_beverage_witness:
  "menuItemOf (Some margherita) \<noteq> None
   \<and> map_option category (menuItemOf (Some margherita)) \<noteq> Some (js ''pizza'')"
  using margherita_category_beverage by (auto simp: js_def)

text \<open>
  Read with a backslash and the letter \<open>n\<close> where the fixture shows a line break, the
  text splits into its three lines; the description then is every line after the first,
  the price line too, and the price stays absent.
\<close>

lemma length_js: "length (js cs) = length cs"
  by (simp add: js_def)

lemma margheritaEscaped_text: "elementText (Some margheritaEscaped) = margheritaEscaped"
  by (simp add: margheritaEscaped_def backslash_def to_text)

lemma margheritaEscaped_length: "length margheritaEscaped = 60"
  by (simp add: margheritaEscaped_def backslash_def js_def)

lemma margheritaEscaped_food: "test True foodKeywords margheritaEscaped"
  apply (simp add: foodKeywords_def margheritaEscaped_def to_search)
  apply (simp only: search cong: if_weak_cong)
  done

lemma margheritaEscaped_not_excluded: "\<not> test True excludeKeywords margheritaEscaped"
  apply (simp add: excludeKeywords_def margheritaEscaped_def to_search)
  apply (simp only: search cong: if_weak_cong)
  done

lemma margheritaEscaped_lines:
  "linesOf margheritaEscaped =
     [js ''Classic Margherita Pizza'', js ''Fresh mozzarella and basil'', js ''$12.99'']"
  by (simp add: margheritaEscaped_def backslash_def linesOf_def trim_def whiteSpace_def js_def)

lemma margheritaEscaped_name:
  "cleanName (firstLine [js ''Classic Margherita Pizza'', js ''Fresh mozzarella and basil'',
       js ''$12.99''] margheritaEscaped) = js ''Classic Margherita Pizza''"
  by (simp add: to_name)

lemma margheritaEscaped_description:
  "descriptionOf [js ''Classic Margherita Pizza'', js ''Fresh mozzarella and basil'',
       js ''$12.99''] margheritaEscaped (js ''Classic Margherita Pizza'')
   = js ''Fresh mozzarella and basil $12.99''"
  by (simp add: descriptionOf_def trim_def whiteSpace_def js_def)

lemma margheritaEscaped_price: "priceOf margheritaEscaped = None"
  by (simp add: priceOf_def pricePatterns_def amountGroup_def exec_def margheritaEscaped_def
      js_def backslash_def rupee_def lit_def oneChar_def canonicalize_def lineTerminator_def)

lemma margheritaEscaped_category:
  "\<not> test True starterWords (toLowerCase margheritaEscaped)"
  "\<not> test True dessertWords (toLowerCase margheritaEscaped)"
  "\<not> test True riceWords (toLowerCase margheritaEscaped)"
  "\<not> test True breadWords (toLowerCase margheritaEscaped)"
  "\<not> test True curryWords (toLowerCase margheritaEscaped)"
  "test True beverageWords (toLowerCase margheritaEscaped)"
       apply (simp_all add: starterWords_def dessertWords_def riceWords_def breadWords_def
      curryWords_def beverageWords_def margheritaEscaped_def to_search)
       apply (simp_all only: search cong: if_weak_cong)
  done

lemma margheritaEscaped_item:
  "map_option (\<lambda>item. (name item, description item, price item, category item))
     (menuItemOf (Some margheritaEscaped)) =
   Some (js ''Classic Margherita Pizza'', js ''Fresh mozzarella and basil $12.99'', None,
         js ''beverage'')"
  by (simp add: menuItemOf_def Let_def margheritaEscaped_text margheritaEscaped_length
      margheritaEscaped_food margheritaEscaped_not_excluded margheritaEscaped_lines
      margheritaEscaped_name margheritaEscaped_description margheritaEscaped_price
      categoryOf_def margheritaEscaped_category length_js)

end
